theory Spec2Isabelle
  imports Main "HOL-Library.Word"
begin

section \<open>StreamTech: the live relay handler (class StreamHandler)\<close>

text \<open>
  The source file \<open>src/routes/convert.js\<close> holds, after the conversion routes, two
  variants of the class \<open>StreamHandler\<close> (\<open>routes/stream-handler.js\<close>): the
  optimized one (with \<open>_buildFFmpegArgs\<close>, lines 156 to 440) and the legacy one
  (argument list written inline in \<open>_startStream\<close>, lines 441 to 658). Both are
  embedded here. The methods \<open>_stopStream\<close> and the \<open>'error'\<close> / \<open>'close'\<close>
  listeners are textually the same in both variants and are embedded once.

  Modelling conventions.
  \<^item> Numbers of the start config are JavaScript numbers; they are embedded as \<open>int\<close>,
    which is exact for integers in the safe range. \<open>Math.floor (b / 2)\<close> is then
    \<open>b div 2\<close> (HOL's \<open>div\<close> on \<open>int\<close> rounds towards minus infinity).
  \<^item> A config property that is absent (\<open>undefined\<close>) is \<open>None\<close>; the types leave
    out \<open>null\<close> and values of another type.
  \<^item> JavaScript runs each listener to its end before the next one starts, so a listener
    is a function from state to state, and one reading of \<open>Date.now ()\<close> serves a
    whole call.
  \<^item> \<open>String n\<close> and the template \<open>`${n}`\<close> are the decimal rendering \<open>jsString\<close>.
\<close>

subsection \<open>Rendering numbers\<close>

definition digitChar :: "nat \<Rightarrow> char" where
  "digitChar d = ''0123456789'' ! d"

fun showNat :: "nat \<Rightarrow> string" where
  "showNat n = (if n < 10 then [digitChar n] else showNat (n div 10) @ [digitChar (n mod 10)])"

declare showNat.simps [simp del]

definition jsString :: "int \<Rightarrow> string" where
  "jsString n = (if n < 0 then ''-'' @ showNat (nat (- n)) else showNat (nat n))"

text \<open>Reading a rendered number back: used only to state properties of argument lists.\<close>

definition digitVal :: "char \<Rightarrow> nat" where
  "digitVal c = of_char c - 48"

definition readNat :: "string \<Rightarrow> nat" where
  "readNat s = foldl (\<lambda>a c. 10 * a + digitVal c) 0 s"

definition readInt :: "string \<Rightarrow> int" where
  "readInt s = (case s of
      [] \<Rightarrow> 0
    | c # cs \<Rightarrow> if c = CHR ''-'' then - int (readNat cs) else int (readNat s))"

text \<open>The number in front of the unit suffix of a rate argument such as \<open>4500k\<close>.\<close>

definition kilobits :: "string \<Rightarrow> int" where
  "kilobits s = readInt (butlast s)"

subsection \<open>The argument builders\<close>

text \<open>
  \<open>_buildFFmpegArgs (rtmpUrl, {width, height, fps, bitrate})\<close> of the optimized variant.
  The first parameter is the value of the environment variable
  \<open>USE_HARDWARE_ENCODING\<close> (\<open>None\<close> when unset); hardware encoding is selected
  when it is exactly the string \<open>true\<close>.
\<close>

definition scaleFilter :: "int \<Rightarrow> int \<Rightarrow> string" where
  "scaleFilter width height =
     ''scale='' @ jsString width @ '':'' @ jsString height
       @ '':force_original_aspect_ratio=decrease,pad='' @ jsString width @ '':'' @ jsString height
       @ '':(ow-iw)/2:(oh-ih)/2''"

definition buildFFmpegArgs ::
  "string option \<Rightarrow> string \<Rightarrow> int \<Rightarrow> int \<Rightarrow> int \<Rightarrow> int \<Rightarrow> string list" where
  "buildFFmpegArgs hwEnv rtmpUrl width height fps bitrate =
     (let useHardware = (hwEnv = Some ''true'') in
      [''-fflags'', ''nobuffer'',
       ''-flags'', ''low_delay'',
       ''-i'', ''pipe:0'',
       ''-threads'', ''4'']
      @ (if useHardware then
           [''-c:v'', ''h264_nvenc'',
            ''-preset'', ''p4'',
            ''-tune'', ''ll'',
            ''-b:v'', jsString bitrate @ ''k'',
            ''-maxrate'', jsString bitrate @ ''k'',
            ''-bufsize'', jsString (bitrate div 2) @ ''k'',
            ''-rc'', ''cbr'',
            ''-gpu'', ''0'']
         else
           [''-c:v'', ''libx264'',
            ''-preset'', ''ultrafast'',
            ''-tune'', ''zerolatency'',
            ''-profile:v'', ''baseline'',
            ''-level'', ''3.1'',
            ''-b:v'', jsString bitrate @ ''k'',
            ''-maxrate'', jsString bitrate @ ''k'',
            ''-bufsize'', jsString (bitrate div 2) @ ''k'',
            ''-threads'', ''4'',
            ''-x264-params'', ''nal-hrd=cbr:force-cfr=1''])
      @ [''-pix_fmt'', ''yuv420p'',
         ''-g'', jsString (fps * 2),
         ''-r'', jsString fps,
         ''-vsync'', ''cfr'',
         ''-vf'', scaleFilter width height @ '',format=yuv420p'',
         ''-c:a'', ''aac'',
         ''-b:a'', ''128k'',
         ''-ar'', ''44100'',
         ''-ac'', ''2'',
         ''-f'', ''flv'',
         rtmpUrl])"

text \<open>The array literal \<open>ffmpegArgs\<close> inside \<open>_startStream\<close> of the legacy variant.\<close>

definition legacyFFmpegArgs :: "string \<Rightarrow> int \<Rightarrow> int \<Rightarrow> int \<Rightarrow> int \<Rightarrow> string list" where
  "legacyFFmpegArgs fullRtmpUrl width height fps bitrate =
     [''-i'', ''pipe:0'',
      ''-c:v'', ''libx264'',
      ''-preset'', ''veryfast'',
      ''-tune'', ''zerolatency'',
      ''-b:v'', jsString bitrate @ ''k'',
      ''-maxrate'', jsString bitrate @ ''k'',
      ''-bufsize'', jsString (bitrate * 2) @ ''k'',
      ''-pix_fmt'', ''yuv420p'',
      ''-g'', jsString (fps * 2),
      ''-r'', jsString fps,
      ''-vf'', scaleFilter width height,
      ''-c:a'', ''aac'',
      ''-b:a'', ''128k'',
      ''-ar'', ''44100'',
      ''-ac'', ''2'',
      ''-f'', ''flv'',
      fullRtmpUrl]"

text \<open>
  The value that follows the first occurrence of an option in an argument list: how the
  encoder reads \<open>-g 60\<close>. An observation on argument lists, used to state the properties.
\<close>

fun argValue :: "string \<Rightarrow> string list \<Rightarrow> string option" where
  "argValue flag (x # y # rest) = (if x = flag then Some y else argValue flag (y # rest))"
| "argValue flag [x] = None"
| "argValue flag [] = None"

subsection \<open>Data of the handler\<close>

text \<open>
  The start config as the client sends it. \<open>rtmpUrl\<close> and \<open>streamKey\<close> are strings,
  the other four are numbers; each may be absent.
\<close>

record stream_config =
  rtmpUrl :: "string option"
  streamKey :: "string option"
  width :: "int option"
  height :: "int option"
  fps :: "int option"
  bitrate :: "int option"

type_synonym socket_id = string

type_synonym pid = nat

type_synonym buffer = "8 word list"

text \<open>
  What \<open>stdin.write\<close> does with a chunk is decided by the encoder and the operating
  system: the write is accepted, or it is accepted by the call and fails later (the error
  reaches the write callback and the \<open>'error'\<close> listener of \<open>stdin\<close>, for example
  \<open>EPIPE\<close>), or the call itself throws.
\<close>

datatype write_result = WriteOk | WriteAsyncError | WriteThrows

text \<open>
  What \<open>spawn\<close> does: it returns a child process object, or it throws with a message.
  A process that could not be launched after \<open>spawn\<close> returned is reported later through
  the \<open>'error'\<close> listener of the child (event \<open>FfmpegError\<close> below).
\<close>

datatype spawn_result = Spawned | SpawnThrows string

text \<open>
  The child process object as far as the handler uses it: the arguments it was spawned
  with, the socket captured by the listeners that \<open>_startStream\<close> registers on it, the
  log of \<open>stdin.write\<close> calls with their outcome, whether \<open>stdin.end ()\<close> was called, and
  the signals sent with \<open>kill\<close>.
\<close>

record child_process =
  spawnArgs :: "string list"
  listenerSocket :: socket_id
  stdinWrites :: "(buffer \<times> write_result) list"
  stdinEnded :: bool
  signals :: "string list"

text \<open>The value stored in the map \<open>streams\<close>: \<open>{ffmpeg, startTime, bytesReceived, config}\<close>.\<close>

record stream_info =
  ffmpeg :: pid
  startTime :: int
  bytesReceived :: nat
  config :: stream_config

text \<open>Events the handler emits on a socket, with their payload.\<close>

datatype out_event =
    StreamError string
  | StreamStarted string int
  | StreamStopped int nat

text \<open>
  The state: the map \<open>this.streams\<close>, every child process spawned so far (a process is
  named by its position in the list), the events emitted so far, oldest first, each
  with the socket it was emitted on, and the processes whose \<open>'close'\<close> notification
  has been handled, that is, the encoders known to have exited.
\<close>

record handler_state =
  streams :: "socket_id \<rightharpoonup> stream_info"
  procs :: "child_process list"
  emitted :: "(socket_id \<times> out_event) list"
  closed :: "pid list"

definition initState :: handler_state where
  "initState = \<lparr>streams = Map.empty, procs = [], emitted = [], closed = []\<rparr>"

definition emit :: "socket_id \<Rightarrow> out_event \<Rightarrow> handler_state \<Rightarrow> handler_state" where
  "emit sock ev s = s\<lparr>emitted := emitted s @ [(sock, ev)]\<rparr>"

text \<open>\<open>Math.round (ms / 1000)\<close> on an integer number of milliseconds: halves round up.\<close>

definition roundSeconds :: "int \<Rightarrow> int" where
  "roundSeconds ms = (ms + 500) div 1000"

text \<open>A string is truthy when it is present and not empty.\<close>

definition truthy :: "string option \<Rightarrow> bool" where
  "truthy v = (case v of None \<Rightarrow> False | Some str \<Rightarrow> str \<noteq> [])"

subsection \<open>The handler's methods\<close>

text \<open>
  \<open>_stopStream (socket)\<close>. The parameter \<open>now\<close> is the reading of \<open>Date.now ()\<close>
  during the call. \<open>stdin.end ()\<close> and \<open>kill ('SIGTERM')\<close> are taken not to throw.
\<close>

definition stopStream :: "socket_id \<Rightarrow> int \<Rightarrow> handler_state \<Rightarrow> handler_state" where
  "stopStream sock now s =
     (case streams s sock of
        None \<Rightarrow> s
      | Some streamInfo \<Rightarrow>
          let p = ffmpeg streamInfo;
              s1 = s\<lparr>procs := (procs s)[p := (procs s ! p)\<lparr>stdinEnded := True\<rparr>]\<rparr>;
              s2 = s1\<lparr>procs := (procs s1)[p := (procs s1 ! p)\<lparr>signals := signals (procs s1 ! p) @ [''SIGTERM'']\<rparr>]\<rparr>;
              duration = roundSeconds (now - startTime streamInfo);
              s3 = emit sock (StreamStopped duration (bytesReceived streamInfo)) s2
          in s3\<lparr>streams := (streams s3)(sock := None)\<rparr>)"

text \<open>The child process object that \<open>spawn\<close> returns, with the listeners of \<open>socket\<close>.\<close>

definition newProcess :: "string list \<Rightarrow> socket_id \<Rightarrow> child_process" where
  "newProcess ffmpegArgs sock =
     \<lparr>spawnArgs = ffmpegArgs, listenerSocket = sock, stdinWrites = [], stdinEnded = False, signals = []\<rparr>"

text \<open>
  The part of \<open>_startStream\<close> after the argument list is built, the same in both
  variants: \<open>spawn\<close>, \<open>streams.set\<close>, the \<open>stream-started\<close> event, and the \<open>catch\<close>.
\<close>

definition spawnAndRegister ::
  "socket_id \<Rightarrow> stream_config \<Rightarrow> string list \<Rightarrow> spawn_result \<Rightarrow> int \<Rightarrow> handler_state \<Rightarrow> handler_state" where
  "spawnAndRegister sock cfg ffmpegArgs sp now s =
     (case sp of
        SpawnThrows msg \<Rightarrow> emit sock (StreamError (''Failed to start stream: '' @ msg)) s
      | Spawned \<Rightarrow>
          let p = length (procs s);
              s1 = s\<lparr>procs := procs s @ [newProcess ffmpegArgs sock]\<rparr>;
              s2 = s1\<lparr>streams := (streams s1)(sock \<mapsto>
                     \<lparr>ffmpeg = p, startTime = now, bytesReceived = 0, config = cfg\<rparr>)\<rparr>
          in emit sock (StreamStarted ''Stream started successfully'' now) s2)"

text \<open>The destructuring of the config with its defaults, and the full target URL.\<close>

definition widthOf :: "stream_config \<Rightarrow> int" where
  "widthOf cfg = (case width cfg of None \<Rightarrow> 1920 | Some v \<Rightarrow> v)"

definition heightOf :: "stream_config \<Rightarrow> int" where
  "heightOf cfg = (case height cfg of None \<Rightarrow> 1080 | Some v \<Rightarrow> v)"

definition fpsOf :: "stream_config \<Rightarrow> int" where
  "fpsOf cfg = (case fps cfg of None \<Rightarrow> 30 | Some v \<Rightarrow> v)"

definition bitrateOf :: "stream_config \<Rightarrow> int" where
  "bitrateOf cfg = (case bitrate cfg of None \<Rightarrow> 4500 | Some v \<Rightarrow> v)"

definition fullRtmpUrl :: "stream_config \<Rightarrow> string" where
  "fullRtmpUrl cfg =
     (case rtmpUrl cfg of
        None \<Rightarrow> []
      | Some url \<Rightarrow>
          (case streamKey cfg of
             None \<Rightarrow> url
           | Some key \<Rightarrow> if key \<noteq> [] then url @ ''/'' @ key else url))"

text \<open>\<open>_startStream (socket, config)\<close>, optimized variant.\<close>

definition startStream ::
  "string option \<Rightarrow> socket_id \<Rightarrow> stream_config \<Rightarrow> spawn_result \<Rightarrow> int \<Rightarrow> handler_state \<Rightarrow> handler_state" where
  "startStream hwEnv sock cfg sp now s =
     (if \<not> truthy (rtmpUrl cfg) then emit sock (StreamError ''RTMP URL is required'') s
      else
        let s1 = stopStream sock now s;
            ffmpegArgs = buildFFmpegArgs hwEnv (fullRtmpUrl cfg)
                           (widthOf cfg) (heightOf cfg) (fpsOf cfg) (bitrateOf cfg)
        in spawnAndRegister sock cfg ffmpegArgs sp now s1)"

text \<open>\<open>_startStream (socket, config)\<close>, legacy variant.\<close>

definition startStreamLegacy ::
  "socket_id \<Rightarrow> stream_config \<Rightarrow> spawn_result \<Rightarrow> int \<Rightarrow> handler_state \<Rightarrow> handler_state" where
  "startStreamLegacy sock cfg sp now s =
     (if \<not> truthy (rtmpUrl cfg) then emit sock (StreamError ''RTMP URL is required'') s
      else
        let s1 = stopStream sock now s;
            ffmpegArgs = legacyFFmpegArgs (fullRtmpUrl cfg)
                           (widthOf cfg) (heightOf cfg) (fpsOf cfg) (bitrateOf cfg)
        in spawnAndRegister sock cfg ffmpegArgs sp now s1)"

text \<open>
  The call \<open>stdin.write (buffer)\<close> on process \<open>p\<close> with outcome \<open>r\<close>, followed, when
  the call returns, by \<open>streamInfo.bytesReceived += buffer.length\<close>.
\<close>

definition writeChunk ::
  "socket_id \<Rightarrow> stream_info \<Rightarrow> buffer \<Rightarrow> write_result \<Rightarrow> handler_state \<Rightarrow> handler_state" where
  "writeChunk sock streamInfo data r s =
     (let p = ffmpeg streamInfo;
          s1 = s\<lparr>procs := (procs s)[p := (procs s ! p)\<lparr>stdinWrites := stdinWrites (procs s ! p) @ [(data, r)]\<rparr>]\<rparr>
      in if r = WriteThrows then s1
         else s1\<lparr>streams := (streams s1)(sock \<mapsto>
                streamInfo\<lparr>bytesReceived := bytesReceived streamInfo + length data\<rparr>)\<rparr>)"

text \<open>
  \<open>_handleData (socket, data)\<close>, optimized variant. \<open>destroyed\<close> is the flag
  \<open>stdin.destroyed\<close> at the time of the call. When the write throws, the \<open>catch\<close> stops
  the stream. An entry of \<open>streams\<close> always holds a process with a \<open>stdin\<close>, so the
  tests \<open>!streamInfo.ffmpeg\<close> and \<open>streamInfo.ffmpeg.stdin\<close> have no branch here.
\<close>

definition handleData ::
  "socket_id \<Rightarrow> buffer \<Rightarrow> bool \<Rightarrow> write_result \<Rightarrow> int \<Rightarrow> handler_state \<Rightarrow> handler_state" where
  "handleData sock data destroyed r now s =
     (case streams s sock of
        None \<Rightarrow> s
      | Some streamInfo \<Rightarrow>
          if \<not> destroyed then
            (let s1 = writeChunk sock streamInfo data r s
             in if r = WriteThrows then stopStream sock now s1 else s1)
          else s)"

text \<open>
  \<open>_handleData (socket, data)\<close>, legacy variant: no test of \<open>stdin.destroyed\<close>, and
  the \<open>catch\<close> only logs.
\<close>

definition handleDataLegacy ::
  "socket_id \<Rightarrow> buffer \<Rightarrow> write_result \<Rightarrow> handler_state \<Rightarrow> handler_state" where
  "handleDataLegacy sock data r s =
     (case streams s sock of
        None \<Rightarrow> s
      | Some streamInfo \<Rightarrow> writeChunk sock streamInfo data r s)"

text \<open>
  The listener \<open>ffmpeg.on ('error', ...)\<close> of process \<open>p\<close>: it emits on the socket it
  captured and stops whatever stream that socket has now. Only a spawned process has
  listeners; a notification for any other number leaves the state as it is.
\<close>

definition ffmpegOnError :: "pid \<Rightarrow> string \<Rightarrow> int \<Rightarrow> handler_state \<Rightarrow> handler_state" where
  "ffmpegOnError p msg now s =
     (if p < length (procs s) then
        let sock = listenerSocket (procs s ! p)
        in stopStream sock now (emit sock (StreamError (''FFmpeg error: '' @ msg)) s)
      else s)"

text \<open>
  The listener \<open>ffmpeg.on ('close', ...)\<close> of process \<open>p\<close>. The exit code is \<open>None\<close>
  for \<open>null\<close> (the process was ended by a signal). The last line is bookkeeping of
  the model: it records that the process has exited.
\<close>

definition codeString :: "int option \<Rightarrow> string" where
  "codeString code = (case code of None \<Rightarrow> ''null'' | Some c \<Rightarrow> jsString c)"

definition ffmpegOnClose :: "pid \<Rightarrow> int option \<Rightarrow> handler_state \<Rightarrow> handler_state" where
  "ffmpegOnClose p code s =
     (if p < length (procs s) then
        let sock = listenerSocket (procs s ! p);
            s1 = (if code \<noteq> Some 0 \<and> streams s sock \<noteq> None
                  then emit sock (StreamError (''Stream ended unexpectedly (code '' @ codeString code @ '')'')) s
                  else s);
            s2 = s1\<lparr>streams := (streams s1)(sock := None)\<rparr>
        in s2\<lparr>closed := closed s2 @ [p]\<rparr>
      else s)"

subsection \<open>Events and runs\<close>

text \<open>
  What can happen to the handler: the four messages of a client (\<open>init\<close> wires
  \<open>start-stream\<close>, \<open>stream-data\<close>, \<open>stop-stream\<close> and \<open>disconnect\<close> to the methods
  above) and the two notifications of a child process. Each event carries what the
  environment decides during its handling.
\<close>

datatype event =
    StartStream socket_id stream_config spawn_result int
  | StreamData socket_id buffer bool write_result int
  | StopStream socket_id int
  | Disconnect socket_id int
  | FfmpegError pid string int
  | FfmpegClose pid "int option"

datatype variant = Optimized "string option" | Legacy

fun step :: "variant \<Rightarrow> event \<Rightarrow> handler_state \<Rightarrow> handler_state" where
  "step (Optimized hwEnv) (StartStream sock cfg sp now) s = startStream hwEnv sock cfg sp now s"
| "step Legacy (StartStream sock cfg sp now) s = startStreamLegacy sock cfg sp now s"
| "step (Optimized hwEnv) (StreamData sock data destroyed r now) s = handleData sock data destroyed r now s"
| "step Legacy (StreamData sock data destroyed r now) s = handleDataLegacy sock data r s"
| "step v (StopStream sock now) s = stopStream sock now s"
| "step v (Disconnect sock now) s = stopStream sock now s"
| "step v (FfmpegError p msg now) s = ffmpegOnError p msg now s"
| "step v (FfmpegClose p code) s = ffmpegOnClose p code s"

fun run :: "variant \<Rightarrow> event list \<Rightarrow> handler_state \<Rightarrow> handler_state" where
  "run v [] s = s"
| "run v (e # es) s = run v es (step v e s)"

text \<open>The requests of clients, as opposed to the notifications of child processes.\<close>

fun isRequest :: "event \<Rightarrow> bool" where
  "isRequest (FfmpegError p msg now) = False"
| "isRequest (FfmpegClose p code) = False"
| "isRequest e = True"

subsection \<open>Observations on states\<close>

text \<open>
  A relay session is a child process together with its entry in \<open>streams\<close>. Its
  process has been torn down when its input pipe was closed and a termination signal
  was sent to it; the process may still be running then.
\<close>

definition tornDown :: "child_process \<Rightarrow> bool" where
  "tornDown c = (stdinEnded c \<and> ''SIGTERM'' \<in> set (signals c))"

text \<open>
  The non-terminal sessions of a socket: the processes spawned for it that have not
  exited, whether registered (starting or live) or torn down and still running
  (stopping). A session is terminal once the exit of its encoder has been notified.
\<close>

definition nonTerminalSessions :: "handler_state \<Rightarrow> socket_id \<Rightarrow> pid list" where
  "nonTerminalSessions s sock =
     filter (\<lambda>p. listenerSocket (procs s ! p) = sock \<and> p \<notin> set (closed s)) [0..<length (procs s)]"

text \<open>
  The processes of a socket that the handler has not torn down (they may have exited by
  themselves).
\<close>

definition unstoppedProcesses :: "handler_state \<Rightarrow> socket_id \<Rightarrow> pid list" where
  "unstoppedProcesses s sock =
     filter (\<lambda>p. listenerSocket (procs s ! p) = sock \<and> \<not> tornDown (procs s ! p)) [0..<length (procs s)]"

text \<open>Whether process \<open>p\<close> is the one registered in \<open>streams\<close> for socket \<open>sock\<close>.\<close>

definition registeredAs :: "handler_state \<Rightarrow> socket_id \<Rightarrow> pid \<Rightarrow> bool" where
  "registeredAs s sock p = (case streams s sock of None \<Rightarrow> False | Some streamInfo \<Rightarrow> ffmpeg streamInfo = p)"

text \<open>
  Bytes of the write calls on a process that returned, and bytes of those that were
  accepted by the pipe.
\<close>

definition handedBytes :: "child_process \<Rightarrow> nat" where
  "handedBytes c = sum_list (map (\<lambda>(data, r). length data) (filter (\<lambda>(data, r). r \<noteq> WriteThrows) (stdinWrites c)))"

definition forwardedBytes :: "child_process \<Rightarrow> nat" where
  "forwardedBytes c = sum_list (map (\<lambda>(data, r). length data) (filter (\<lambda>(data, r). r = WriteOk) (stdinWrites c)))"

text \<open>The events emitted on a socket, and classes of events.\<close>

definition emittedOn :: "handler_state \<Rightarrow> socket_id \<Rightarrow> out_event list" where
  "emittedOn s sock = map snd (filter (\<lambda>(k, ev). k = sock) (emitted s))"

fun isError :: "out_event \<Rightarrow> bool" where
  "isError (StreamError msg) = True"
| "isError ev = False"

fun isStopped :: "out_event \<Rightarrow> bool" where
  "isStopped (StreamStopped d b) = True"
| "isStopped ev = False"

subsection \<open>Invariants\<close>

text \<open>
  Every entry of \<open>streams\<close> names a process that exists, whose listeners captured the
  socket of the entry, and counts the bytes of the write calls on it that returned.
\<close>

definition wellFormed :: "handler_state \<Rightarrow> bool" where
  "wellFormed s =
     (\<forall>sock streamInfo. streams s sock = Some streamInfo \<longrightarrow>
        ffmpeg streamInfo < length (procs s)
        \<and> listenerSocket (procs s ! ffmpeg streamInfo) = sock
        \<and> bytesReceived streamInfo = handedBytes (procs s ! ffmpeg streamInfo))"

text \<open>Every process is torn down or is the one registered for its socket.\<close>

definition noOrphan :: "handler_state \<Rightarrow> bool" where
  "noOrphan s =
     (\<forall>p < length (procs s).
        tornDown (procs s ! p) \<or> registeredAs s (listenerSocket (procs s ! p)) p)"


text \<open>The two effects of a teardown on a child process.\<close>

definition markStopped :: "child_process \<Rightarrow> child_process" where
  "markStopped c = c\<lparr>stdinEnded := True, signals := signals c @ [''SIGTERM'']\<rparr>"


text \<open>The argument list that \<open>_startStream\<close> of a variant builds for a config.\<close>

definition argsFor :: "variant \<Rightarrow> stream_config \<Rightarrow> string list" where
  "argsFor v cfg =
     (case v of
        Optimized hwEnv \<Rightarrow>
          buildFFmpegArgs hwEnv (fullRtmpUrl cfg) (widthOf cfg) (heightOf cfg) (fpsOf cfg) (bitrateOf cfg)
      | Legacy \<Rightarrow>
          legacyFFmpegArgs (fullRtmpUrl cfg) (widthOf cfg) (heightOf cfg) (fpsOf cfg) (bitrateOf cfg))"

subsection \<open>Example inputs\<close>

text \<open>The start config of the spec's scenarios, and a chunk of a given size.\<close>

definition scenarioConfig :: stream_config where
  "scenarioConfig =
     \<lparr>rtmpUrl = Some ''rtmp://ingest.example/live'', streamKey = Some ''abc123'',
      width = Some 1280, height = Some 720, fps = Some 30, bitrate = Some 2500\<rparr>"

definition chunkOfSize :: "nat \<Rightarrow> buffer" where
  "chunkOfSize n = replicate n 0"

text \<open>Configs with non-positive numbers, without a target URL, and with a target URL only.\<close>

definition nonPositiveConfig :: stream_config where
  "nonPositiveConfig =
     \<lparr>rtmpUrl = Some ''rtmp://ingest.example/live'', streamKey = None,
      width = Some 0, height = Some (- 720), fps = Some 0, bitrate = Some (- 1)\<rparr>"

definition noUrlConfig :: stream_config where
  "noUrlConfig =
     \<lparr>rtmpUrl = None, streamKey = Some ''abc123'',
      width = Some 1280, height = Some 720, fps = Some 30, bitrate = Some 2500\<rparr>"

definition urlOnlyConfig :: stream_config where
  "urlOnlyConfig =
     \<lparr>rtmpUrl = Some ''rtmp://ingest.example/live'', streamKey = None,
      width = None, height = None, fps = None, bitrate = None\<rparr>"


definition stopStartCloseEvents :: "event list" where
  "stopStartCloseEvents =
     [StartStream ''c1'' scenarioConfig Spawned 0,
      StopStream ''c1'' 1,
      StartStream ''c1'' scenarioConfig Spawned 2,
      FfmpegClose 0 None]"

section \<open>Properties\<close>

subsection \<open>Rendering and reading numbers\<close>

lemma showNat_ne: "showNat n \<noteq> []"
  by (subst showNat.simps) simp

lemma digit_cases: "d < 10 \<Longrightarrow> d \<in> {0, 1, 2, 3, 4, 5, 6, 7, 8, 9 :: nat}"
  by auto

lemma digitVal_digitChar: "d < 10 \<Longrightarrow> digitVal (digitChar d) = d"
  using digit_cases [of d] by (auto simp: digitVal_def digitChar_def)

lemma digitChar_not_minus: "d < 10 \<Longrightarrow> digitChar d \<noteq> CHR ''-''"
  using digit_cases [of d] by (auto simp: digitChar_def)

lemma readNat_snoc: "readNat (s @ [c]) = 10 * readNat s + digitVal c"
  by (simp add: readNat_def)

lemma readNat_showNat: "readNat (showNat n) = n"
proof (induction n rule: showNat.induct)
  case (1 n)
  show ?case
  proof (cases "n < 10")
    case True
    then show ?thesis by (subst showNat.simps) (simp add: readNat_def digitVal_digitChar)
  next
    case False
    with 1 have "readNat (showNat (n div 10)) = n div 10" by simp
    with False show ?thesis
      by (subst showNat.simps) (simp add: readNat_snoc digitVal_digitChar)
  qed
qed

lemma hd_showNat_not_minus: "hd (showNat n) \<noteq> CHR ''-''"
proof (induction n rule: showNat.induct)
  case (1 n)
  show ?case
  proof (cases "n < 10")
    case True
    then show ?thesis by (subst showNat.simps) (simp add: digitChar_not_minus)
  next
    case False
    with 1 have "hd (showNat (n div 10)) \<noteq> CHR ''-''" by simp
    with False show ?thesis
      by (subst showNat.simps) (simp add: showNat_ne)
  qed
qed

lemma readInt_jsString: "readInt (jsString n) = n"
proof (cases "n < 0")
  case True
  then show ?thesis by (simp add: jsString_def readInt_def readNat_showNat)
next
  case False
  obtain c cs where cs: "showNat (nat n) = c # cs"
    using showNat_ne [of "nat n"] by (cases "showNat (nat n)") auto
  with hd_showNat_not_minus [of "nat n"] have "c \<noteq> CHR ''-''" by simp
  with False cs readNat_showNat [of "nat n"] show ?thesis
    by (simp add: jsString_def readInt_def)
qed

lemma kilobits_rate: "kilobits (jsString n @ ''k'') = n"
  by (simp add: kilobits_def butlast_append readInt_jsString)

subsection \<open>Options of the argument lists\<close>

text \<open>A template that ends in a unit suffix is no option name.\<close>

lemma suffixed_neq: "t \<noteq> [] \<Longrightarrow> last t \<noteq> c \<Longrightarrow> s @ [c] \<noteq> t"
  by auto

lemma optimized_bitrate_option:
  "argValue ''-b:v'' (buildFFmpegArgs hwEnv url w h f b) = Some (jsString b @ ''k'')"
  by (simp add: buildFFmpegArgs_def suffixed_neq)

lemma optimized_bufsize_option:
  "argValue ''-bufsize'' (buildFFmpegArgs hwEnv url w h f b) = Some (jsString (b div 2) @ ''k'')"
  by (simp add: buildFFmpegArgs_def suffixed_neq)

lemma optimized_keyframe_option:
  "argValue ''-g'' (buildFFmpegArgs hwEnv url w h f b) = Some (jsString (f * 2))"
  by (simp add: buildFFmpegArgs_def suffixed_neq)

lemma legacy_bitrate_option:
  "argValue ''-b:v'' (legacyFFmpegArgs url w h f b) = Some (jsString b @ ''k'')"
  by (simp add: legacyFFmpegArgs_def suffixed_neq)

lemma legacy_bufsize_option:
  "argValue ''-bufsize'' (legacyFFmpegArgs url w h f b) = Some (jsString (b * 2) @ ''k'')"
  by (simp add: legacyFFmpegArgs_def suffixed_neq)

lemma legacy_keyframe_option:
  "argValue ''-g'' (legacyFFmpegArgs url w h f b) = Some (jsString (f * 2))"
  by (simp add: legacyFFmpegArgs_def suffixed_neq)

subsection \<open>Effects of the methods, and the invariants\<close>


lemma stopStream_None: "streams s sock = None \<Longrightarrow> stopStream sock now s = s"
  by (simp add: stopStream_def)

lemma stopStream_Some:
  assumes "streams s sock = Some streamInfo"
  shows "stopStream sock now s =
     s\<lparr>procs := (procs s)[ffmpeg streamInfo := markStopped (procs s ! ffmpeg streamInfo)],
       emitted := emitted s @ [(sock, StreamStopped (roundSeconds (now - startTime streamInfo)) (bytesReceived streamInfo))],
       streams := (streams s)(sock := None)\<rparr>"
proof (cases "ffmpeg streamInfo < length (procs s)")
  case True
  with assms show ?thesis by (simp add: stopStream_def emit_def Let_def markStopped_def)
next
  case False
  then have "length (procs s) \<le> ffmpeg streamInfo" by simp
  with assms show ?thesis by (simp add: stopStream_def emit_def Let_def markStopped_def list_update_beyond)
qed

lemma nth_update_field:
  assumes "\<And>c. f (g c) = f c"
  shows "f ((xs[i := g (xs ! i)]) ! q) = f (xs ! q)"
proof (cases "i < length xs")
  case True
  with assms show ?thesis by (simp add: nth_list_update)
next
  case False
  then have "length xs \<le> i" by simp
  then show ?thesis by (simp add: list_update_beyond)
qed

lemma stopStream_streams: "streams (stopStream sock now s) = (streams s)(sock := None)"
  by (cases "streams s sock") (auto simp: stopStream_None stopStream_Some)

lemma stopStream_length: "length (procs (stopStream sock now s)) = length (procs s)"
  by (cases "streams s sock") (auto simp: stopStream_None stopStream_Some)

lemma stopStream_procs_other:
  "\<not> registeredAs s sock q \<Longrightarrow> procs (stopStream sock now s) ! q = procs s ! q"
  by (cases "streams s sock") (auto simp: stopStream_None stopStream_Some registeredAs_def)

lemma stopStream_procs_self:
  "registeredAs s sock q \<Longrightarrow> q < length (procs s) \<Longrightarrow>
   procs (stopStream sock now s) ! q = markStopped (procs s ! q)"
  by (cases "streams s sock") (auto simp: stopStream_None stopStream_Some registeredAs_def)

lemma stopStream_listener:
  "listenerSocket (procs (stopStream sock now s) ! q) = listenerSocket (procs s ! q)"
  by (cases "streams s sock")
     (auto simp: stopStream_None stopStream_Some markStopped_def intro: nth_update_field)

lemma stopStream_writes:
  "stdinWrites (procs (stopStream sock now s) ! q) = stdinWrites (procs s ! q)"
  by (cases "streams s sock")
     (auto simp: stopStream_None stopStream_Some markStopped_def intro: nth_update_field)

lemma tornDown_markStopped: "tornDown (markStopped c)"
  by (simp add: tornDown_def markStopped_def)

lemma stopStream_tornDown_mono:
  "tornDown (procs s ! q) \<Longrightarrow> tornDown (procs (stopStream sock now s) ! q)"
proof (cases "registeredAs s sock q \<and> q < length (procs s)")
  case True
  then show ?thesis by (simp add: stopStream_procs_self tornDown_markStopped)
next
  case False
  assume t: "tornDown (procs s ! q)"
  show ?thesis
  proof (cases "registeredAs s sock q")
    case True
    with False have "length (procs s) \<le> q" by simp
    with True t show ?thesis
      by (cases "streams s sock")
         (auto simp: stopStream_None stopStream_Some registeredAs_def list_update_beyond)
  next
    case False
    with t show ?thesis by (simp add: stopStream_procs_other)
  qed
qed

lemma stopStream_tornDown_self:
  "registeredAs s sock q \<Longrightarrow> q < length (procs s) \<Longrightarrow> tornDown (procs (stopStream sock now s) ! q)"
  by (simp add: stopStream_procs_self tornDown_markStopped)

lemma stopStream_emitted:
  "emitted (stopStream sock now s) =
     emitted s @ (case streams s sock of None \<Rightarrow> []
        | Some streamInfo \<Rightarrow> [(sock, StreamStopped (roundSeconds (now - startTime streamInfo)) (bytesReceived streamInfo))])"
  by (cases "streams s sock") (auto simp: stopStream_None stopStream_Some)

lemma handedBytes_cong: "stdinWrites c = stdinWrites c' \<Longrightarrow> handedBytes c = handedBytes c'"
  by (simp add: handedBytes_def)

lemma stopStream_wellFormed: "wellFormed s \<Longrightarrow> wellFormed (stopStream sock now s)"
  unfolding wellFormed_def
  by (auto simp: stopStream_streams stopStream_length stopStream_listener
        handedBytes_cong [OF stopStream_writes] split: if_splits)

lemma stopStream_noOrphan: "noOrphan s \<Longrightarrow> noOrphan (stopStream sock now s)"
  unfolding noOrphan_def
proof (intro allI impI)
  fix p assume inv: "\<forall>p<length (procs s). tornDown (procs s ! p) \<or> registeredAs s (listenerSocket (procs s ! p)) p"
    and "p < length (procs (stopStream sock now s))"
  then have p: "p < length (procs s)" by (simp add: stopStream_length)
  show "tornDown (procs (stopStream sock now s) ! p) \<or>
        registeredAs (stopStream sock now s) (listenerSocket (procs (stopStream sock now s) ! p)) p"
  proof (cases "registeredAs s sock p")
    case True
    with p show ?thesis by (simp add: stopStream_tornDown_self)
  next
    case False
    from inv p have "tornDown (procs s ! p) \<or> registeredAs s (listenerSocket (procs s ! p)) p" by blast
    then show ?thesis
    proof
      assume "tornDown (procs s ! p)"
      then show ?thesis by (simp add: stopStream_tornDown_mono)
    next
      assume r: "registeredAs s (listenerSocket (procs s ! p)) p"
      with False have "listenerSocket (procs s ! p) \<noteq> sock" by auto
      with r show ?thesis
        by (simp add: registeredAs_def stopStream_streams stopStream_listener)
    qed
  qed
qed


lemma emit_simps [simp]:
  "streams (emit sock ev s) = streams s"
  "procs (emit sock ev s) = procs s"
  "emitted (emit sock ev s) = emitted s @ [(sock, ev)]"
  by (simp_all add: emit_def)

lemma emit_wellFormed: "wellFormed (emit sock ev s) = wellFormed s"
  by (simp add: wellFormed_def)

lemma emit_noOrphan: "noOrphan (emit sock ev s) = noOrphan s"
  by (simp add: noOrphan_def registeredAs_def)

lemma handedBytes_newProcess: "handedBytes (newProcess ffmpegArgs sock) = 0"
  by (simp add: handedBytes_def newProcess_def)

lemma spawnAndRegister_wellFormed:
  assumes "wellFormed s"
  shows "wellFormed (spawnAndRegister sock cfg ffmpegArgs sp now s)"
proof (cases sp)
  case (SpawnThrows msg)
  with assms show ?thesis by (simp add: spawnAndRegister_def emit_wellFormed)
next
  case Spawned
  have new: "listenerSocket (newProcess ffmpegArgs sock) = sock"
    by (simp add: newProcess_def)
  let ?s' = "spawnAndRegister sock cfg ffmpegArgs Spawned now s"
  have st: "streams ?s' = (streams s)(sock \<mapsto>
      \<lparr>ffmpeg = length (procs s), startTime = now, bytesReceived = 0, config = cfg\<rparr>)"
    and pr: "procs ?s' = procs s @ [newProcess ffmpegArgs sock]"
    by (simp_all add: spawnAndRegister_def Let_def)
  have "wellFormed ?s'"
    unfolding wellFormed_def
  proof (intro allI impI)
    fix k info
    assume k: "streams ?s' k = Some info"
    show "ffmpeg info < length (procs ?s') \<and> listenerSocket (procs ?s' ! ffmpeg info) = k
        \<and> bytesReceived info = handedBytes (procs ?s' ! ffmpeg info)"
    proof (cases "k = sock")
      case True
      with k st have "ffmpeg info = length (procs s)" and "bytesReceived info = 0" by auto
      with True show ?thesis by (simp add: pr new handedBytes_newProcess)
    next
      case False
      with k st have "streams s k = Some info" by simp
      with assms have "ffmpeg info < length (procs s)"
        and "listenerSocket (procs s ! ffmpeg info) = k"
        and "bytesReceived info = handedBytes (procs s ! ffmpeg info)"
        by (auto simp: wellFormed_def)
      then show ?thesis by (simp add: pr nth_append)
    qed
  qed
  with Spawned show ?thesis by simp
qed

lemma spawnAndRegister_noOrphan:
  assumes "noOrphan s" and "streams s sock = None"
  shows "noOrphan (spawnAndRegister sock cfg ffmpegArgs sp now s)"
proof (cases sp)
  case (SpawnThrows msg)
  with assms show ?thesis by (simp add: spawnAndRegister_def emit_noOrphan)
next
  case Spawned
  have new: "listenerSocket (newProcess ffmpegArgs sock) = sock"
    by (simp add: newProcess_def)
  from assms Spawned show ?thesis
    unfolding noOrphan_def spawnAndRegister_def
    by (auto simp: Let_def nth_append registeredAs_def new less_Suc_eq)
qed

lemma handedBytes_snoc:
  "handedBytes (c\<lparr>stdinWrites := stdinWrites c @ [(data, r)]\<rparr>)
     = handedBytes c + (if r = WriteThrows then 0 else length data)"
  by (simp add: handedBytes_def)

lemma writeChunk_length: "length (procs (writeChunk sock streamInfo data r s)) = length (procs s)"
  by (simp add: writeChunk_def Let_def)

lemma writeChunk_listener:
  "listenerSocket (procs (writeChunk sock streamInfo data r s) ! q) = listenerSocket (procs s ! q)"
  by (cases "ffmpeg streamInfo < length (procs s)")
     (simp_all add: writeChunk_def Let_def nth_list_update list_update_beyond)

lemma writeChunk_tornDown:
  "tornDown (procs (writeChunk sock streamInfo data r s) ! q) = tornDown (procs s ! q)"
  by (cases "ffmpeg streamInfo < length (procs s)")
     (simp_all add: writeChunk_def Let_def nth_list_update list_update_beyond tornDown_def)

lemma writeChunk_registeredAs:
  "streams s sock = Some streamInfo \<Longrightarrow>
   registeredAs (writeChunk sock streamInfo data r s) k q = registeredAs s k q"
  by (simp add: writeChunk_def Let_def registeredAs_def)

lemma writeChunk_wellFormed:
  assumes "wellFormed s" and "streams s sock = Some streamInfo"
  shows "wellFormed (writeChunk sock streamInfo data r s)"
proof -
  from assms have p: "ffmpeg streamInfo < length (procs s)"
    and own: "listenerSocket (procs s ! ffmpeg streamInfo) = sock"
    and cnt: "bytesReceived streamInfo = handedBytes (procs s ! ffmpeg streamInfo)"
    by (auto simp: wellFormed_def)
  show ?thesis
    unfolding wellFormed_def
  proof (intro allI impI)
    fix k info
    assume k: "streams (writeChunk sock streamInfo data r s) k = Some info"
    show "ffmpeg info < length (procs (writeChunk sock streamInfo data r s))
        \<and> listenerSocket (procs (writeChunk sock streamInfo data r s) ! ffmpeg info) = k
        \<and> bytesReceived info = handedBytes (procs (writeChunk sock streamInfo data r s) ! ffmpeg info)"
    proof (cases "k = sock")
      case True
      with k assms(2) have "ffmpeg info = ffmpeg streamInfo"
        and "bytesReceived info = bytesReceived streamInfo + (if r = WriteThrows then 0 else length data)"
        by (auto simp: writeChunk_def Let_def split: if_splits)
      with True p own cnt show ?thesis
        by (simp add: writeChunk_length writeChunk_listener)
           (simp add: writeChunk_def Let_def handedBytes_snoc)
    next
      case False
      with k have old: "streams s k = Some info"
        by (auto simp: writeChunk_def Let_def split: if_splits)
      with assms(1) have q: "ffmpeg info < length (procs s)"
        and qown: "listenerSocket (procs s ! ffmpeg info) = k"
        and qcnt: "bytesReceived info = handedBytes (procs s ! ffmpeg info)"
        by (auto simp: wellFormed_def)
      from False own qown have "ffmpeg info \<noteq> ffmpeg streamInfo" by auto
      with q qown qcnt show ?thesis
        by (simp add: writeChunk_length writeChunk_listener)
           (simp add: writeChunk_def Let_def)
    qed
  qed
qed

lemma writeChunk_noOrphan:
  "noOrphan s \<Longrightarrow> streams s sock = Some streamInfo \<Longrightarrow> noOrphan (writeChunk sock streamInfo data r s)"
  by (simp add: noOrphan_def writeChunk_length writeChunk_listener writeChunk_tornDown
        writeChunk_registeredAs)

lemma startStream_wellFormed: "wellFormed s \<Longrightarrow> wellFormed (startStream hwEnv sock cfg sp now s)"
  by (simp add: startStream_def Let_def emit_wellFormed spawnAndRegister_wellFormed stopStream_wellFormed)

lemma startStreamLegacy_wellFormed: "wellFormed s \<Longrightarrow> wellFormed (startStreamLegacy sock cfg sp now s)"
  by (simp add: startStreamLegacy_def Let_def emit_wellFormed spawnAndRegister_wellFormed stopStream_wellFormed)

lemma handleData_wellFormed: "wellFormed s \<Longrightarrow> wellFormed (handleData sock data destroyed r now s)"
  by (simp add: handleData_def Let_def writeChunk_wellFormed stopStream_wellFormed split: option.splits)

lemma handleDataLegacy_wellFormed: "wellFormed s \<Longrightarrow> wellFormed (handleDataLegacy sock data r s)"
  by (simp add: handleDataLegacy_def writeChunk_wellFormed split: option.splits)

lemma ffmpegOnError_wellFormed: "wellFormed s \<Longrightarrow> wellFormed (ffmpegOnError p msg now s)"
  by (simp add: ffmpegOnError_def Let_def stopStream_wellFormed emit_wellFormed)

lemma ffmpegOnClose_wellFormed: "wellFormed s \<Longrightarrow> wellFormed (ffmpegOnClose p code s)"
  by (auto simp: ffmpegOnClose_def Let_def wellFormed_def split: if_splits)

lemma step_wellFormed: "wellFormed s \<Longrightarrow> wellFormed (step v e s)"
  by (cases v; cases e)
     (simp_all add: startStream_wellFormed startStreamLegacy_wellFormed handleData_wellFormed
        handleDataLegacy_wellFormed stopStream_wellFormed ffmpegOnError_wellFormed
        ffmpegOnClose_wellFormed)

lemma run_wellFormed: "wellFormed s \<Longrightarrow> wellFormed (run v es s)"
  by (induction es arbitrary: s) (simp_all add: step_wellFormed)

lemma initState_wellFormed: "wellFormed initState"
  by (simp add: wellFormed_def initState_def)

lemma startStream_noOrphan: "noOrphan s \<Longrightarrow> noOrphan (startStream hwEnv sock cfg sp now s)"
  by (simp add: startStream_def Let_def emit_noOrphan spawnAndRegister_noOrphan
        stopStream_noOrphan stopStream_streams)

lemma startStreamLegacy_noOrphan: "noOrphan s \<Longrightarrow> noOrphan (startStreamLegacy sock cfg sp now s)"
  by (simp add: startStreamLegacy_def Let_def emit_noOrphan spawnAndRegister_noOrphan
        stopStream_noOrphan stopStream_streams)

lemma handleData_noOrphan: "noOrphan s \<Longrightarrow> noOrphan (handleData sock data destroyed r now s)"
  by (simp add: handleData_def Let_def writeChunk_noOrphan stopStream_noOrphan split: option.splits)

lemma handleDataLegacy_noOrphan: "noOrphan s \<Longrightarrow> noOrphan (handleDataLegacy sock data r s)"
  by (simp add: handleDataLegacy_def writeChunk_noOrphan split: option.splits)

lemma step_noOrphan: "isRequest e \<Longrightarrow> noOrphan s \<Longrightarrow> noOrphan (step v e s)"
  by (cases v; cases e)
     (simp_all add: startStream_noOrphan startStreamLegacy_noOrphan handleData_noOrphan
        handleDataLegacy_noOrphan stopStream_noOrphan)

lemma run_noOrphan: "list_all isRequest es \<Longrightarrow> noOrphan s \<Longrightarrow> noOrphan (run v es s)"
  by (induction es arbitrary: s) (simp_all add: step_noOrphan)

lemma initState_noOrphan: "noOrphan initState"
  by (simp add: noOrphan_def initState_def)

lemma noOrphan_active_le_1:
  assumes "noOrphan s"
  shows "length (unstoppedProcesses s sock) \<le> 1"
proof -
  have d: "distinct (unstoppedProcesses s sock)"
    by (simp add: unstoppedProcesses_def)
  have sub: "set (unstoppedProcesses s sock) \<subseteq> (case streams s sock of None \<Rightarrow> {} | Some streamInfo \<Rightarrow> {ffmpeg streamInfo})"
    using assms by (auto simp: unstoppedProcesses_def noOrphan_def registeredAs_def split: option.splits)
  have "card (set (unstoppedProcesses s sock)) \<le> 1"
  proof (cases "streams s sock")
    case None
    with sub show ?thesis by simp
  next
    case (Some streamInfo)
    with sub have "set (unstoppedProcesses s sock) \<subseteq> {ffmpeg streamInfo}" by simp
    then have "card (set (unstoppedProcesses s sock)) \<le> card {ffmpeg streamInfo}"
      by (intro card_mono) simp_all
    then show ?thesis by simp
  qed
  with d show ?thesis by (simp add: distinct_card)
qed


subsection \<open>Start requests and counters\<close>

lemma truthy_scenario: "truthy (rtmpUrl scenarioConfig)"
  by (simp add: truthy_def scenarioConfig_def)

lemma spawnAndRegister_Spawned:
  "spawnAndRegister sock cfg ffmpegArgs Spawned now s =
     s\<lparr>procs := procs s @ [newProcess ffmpegArgs sock],
       streams := (streams s)(sock \<mapsto> \<lparr>ffmpeg = length (procs s), startTime = now, bytesReceived = 0, config = cfg\<rparr>),
       emitted := emitted s @ [(sock, StreamStarted ''Stream started successfully'' now)]\<rparr>"
  by (simp add: spawnAndRegister_def Let_def emit_def)

lemma spawnAndRegister_Throws:
  "spawnAndRegister sock cfg ffmpegArgs (SpawnThrows msg) now s =
     emit sock (StreamError (''Failed to start stream: '' @ msg)) s"
  by (simp add: spawnAndRegister_def)

text \<open>A start request, by whether the target URL is truthy.\<close>

lemma step_start_valid:
  "truthy (rtmpUrl cfg) \<Longrightarrow>
   step v (StartStream sock cfg sp now) s =
     spawnAndRegister sock cfg (argsFor v cfg) sp now (stopStream sock now s)"
  by (cases v) (simp_all add: startStream_def startStreamLegacy_def Let_def argsFor_def)

lemma step_start_invalid:
  "\<not> truthy (rtmpUrl cfg) \<Longrightarrow>
   step v (StartStream sock cfg sp now) s = emit sock (StreamError ''RTMP URL is required'') s"
  by (cases v) (simp_all add: startStream_def startStreamLegacy_def)

lemma initState_simps [simp]:
  "streams initState = Map.empty" "procs initState = []" "emitted initState = []"
  "closed initState = []"
  by (simp_all add: initState_def)

lemma start_from_init:
  "truthy (rtmpUrl cfg) \<Longrightarrow>
   step v (StartStream sock cfg Spawned now) initState =
     \<lparr>streams = [sock \<mapsto> \<lparr>ffmpeg = 0, startTime = now, bytesReceived = 0, config = cfg\<rparr>],
      procs = [newProcess (argsFor v cfg) sock],
      emitted = [(sock, StreamStarted ''Stream started successfully'' now)],
      closed = []\<rparr>"
  by (simp add: step_start_valid stopStream_None spawnAndRegister_Spawned initState_def)

lemma step_bytes_monotone:
  assumes wf: "wellFormed s"
    and old: "streams s sock = Some streamInfo"
    and new: "streams (step v e s) sock = Some streamInfo'"
    and same: "ffmpeg streamInfo' = ffmpeg streamInfo"
  shows "bytesReceived streamInfo \<le> bytesReceived streamInfo'"
proof -
  from wf old have p: "ffmpeg streamInfo < length (procs s)" by (auto simp: wellFormed_def)
  have stop: "\<And>k t. streams (stopStream k t s) sock = Some streamInfo' \<Longrightarrow> ?thesis"
    using old by (auto simp: stopStream_streams split: if_splits)
  show ?thesis
  proof (cases e)
    case (StartStream k cfg sp now)
    show ?thesis
    proof (cases "truthy (rtmpUrl cfg)")
      case False
      with new old StartStream show ?thesis by (simp add: step_start_invalid)
    next
      case True
      show ?thesis
      proof (cases sp)
        case (SpawnThrows msg)
        with new True StartStream show ?thesis
          by (auto simp: step_start_valid spawnAndRegister_Throws intro: stop)
      next
        case Spawned
        with new True StartStream same p old show ?thesis
          by (auto simp: step_start_valid spawnAndRegister_Spawned stopStream_length
                stopStream_streams split: if_splits)
      qed
    qed
  next
    case (StreamData k data destroyed r now)
    show ?thesis
    proof (cases "k = sock")
      case True
      with new old StreamData show ?thesis
        by (cases v)
           (auto simp: handleData_def handleDataLegacy_def writeChunk_def Let_def
              stopStream_streams split: if_splits)
    next
      case False
      with new old StreamData show ?thesis
        by (cases v; cases "streams s k")
           (auto simp: handleData_def handleDataLegacy_def writeChunk_def Let_def
              stopStream_streams split: if_splits)
    qed
  next
    case (StopStream k now)
    with new show ?thesis by (auto intro: stop)
  next
    case (Disconnect k now)
    with new show ?thesis by (auto intro: stop)
  next
    case (FfmpegError q msg now)
    with new old show ?thesis
      by (auto simp: ffmpegOnError_def Let_def stopStream_streams split: if_splits)
  next
    case (FfmpegClose q code)
    with new old show ?thesis
      by (auto simp: ffmpegOnClose_def Let_def split: if_splits)
  qed
qed

lemma length_chunkOfSize [simp]: "length (chunkOfSize n) = n"
  by (simp add: chunkOfSize_def)

subsection \<open>Stop, restart and defaults\<close>

lemma close_after_stop_silent:
  assumes "streams s sock = None" and "listenerSocket (procs s ! p) = sock"
  shows "emitted (ffmpegOnClose p code s) = emitted s"
  using assms by (simp add: ffmpegOnClose_def Let_def)

lemma unstoppedProcesses_singleton:
  assumes "length (unstoppedProcesses s sock) \<le> 1" and "p \<in> set (unstoppedProcesses s sock)"
  shows "unstoppedProcesses s sock = [p]"
proof (cases "unstoppedProcesses s sock")
  case Nil
  with assms(2) show ?thesis by simp
next
  case (Cons q qs)
  with assms(1) have "qs = []" by simp
  with Cons assms(2) show ?thesis by simp
qed

lemma fullRtmpUrl_numbers [simp]:
  "fullRtmpUrl (cfg\<lparr>width := a\<rparr>) = fullRtmpUrl cfg"
  "fullRtmpUrl (cfg\<lparr>height := a\<rparr>) = fullRtmpUrl cfg"
  "fullRtmpUrl (cfg\<lparr>fps := a\<rparr>) = fullRtmpUrl cfg"
  "fullRtmpUrl (cfg\<lparr>bitrate := a\<rparr>) = fullRtmpUrl cfg"
  by (simp_all add: fullRtmpUrl_def split: option.splits)

subsection \<open>The registered session is live\<close>

lemma closed_emit [simp]: "closed (emit sock ev s) = closed s"
  by (simp add: emit_def)

lemma closed_stopStream [simp]: "closed (stopStream sock now s) = closed s"
  by (cases "streams s sock") (simp_all add: stopStream_None stopStream_Some)

lemma closed_spawnAndRegister [simp]:
  "closed (spawnAndRegister sock cfg ffmpegArgs sp now s) = closed s"
  by (cases sp) (simp_all add: spawnAndRegister_Spawned spawnAndRegister_Throws)

lemma closed_writeChunk [simp]: "closed (writeChunk sock streamInfo data r s) = closed s"
  by (simp add: writeChunk_def Let_def)

















subsection \<open>Runs of the example events\<close>




lemma stopStartClose_state:
  "procs (run v stopStartCloseEvents initState)
     = [markStopped (newProcess (argsFor v scenarioConfig) ''c1''),
        newProcess (argsFor v scenarioConfig) ''c1'']"
  "closed (run v stopStartCloseEvents initState) = [0]"
  "streams (run v stopStartCloseEvents initState) ''c1'' = None"
  "emitted (run v stopStartCloseEvents initState)
     = [(''c1'', StreamStarted ''Stream started successfully'' 0),
        (''c1'', StreamStopped 0 0),
        (''c1'', StreamStarted ''Stream started successfully'' 2),
        (''c1'', StreamError ''Stream ended unexpectedly (code null)'')]"
  by (simp_all add: stopStartCloseEvents_def start_from_init step_start_valid truthy_scenario
        spawnAndRegister_Spawned stopStream_def emit_def Let_def markStopped_def
        ffmpegOnClose_def newProcess_def codeString_def roundSeconds_def
        del: step.simps(1,2))

lemma stopStartClose_nonTerminal:
  "nonTerminalSessions (run v stopStartCloseEvents initState) ''c1'' = [1]"
  unfolding nonTerminalSessions_def stopStartClose_state
  by (simp add: upt_rec [of 0] upt_rec [of 1] upt_rec [of 2] markStopped_def newProcess_def)

subsection \<open>Stop and disconnect of a registered session\<close>

text \<open>
  For a socket with an entry in \<open>streams\<close>, in every state the handler reaches, a
  disconnect does what a stop request does: the input pipe of the registered process is
  closed, \<open>SIGTERM\<close> is sent to it, the entry is removed, the only event emitted is the
  \<open>stream-stopped\<close> summary, no entry names the process afterwards, and the exit of
  the process emits nothing more.
\<close>

lemma disconnect_stops_registered_session:
  assumes "s = run v es initState" and "streams s sock = Some streamInfo"
  shows "step v (Disconnect sock now) s = step v (StopStream sock now) s
    \<and> ffmpeg streamInfo < length (procs s)
    \<and> stdinEnded (procs (step v (Disconnect sock now) s) ! ffmpeg streamInfo)
    \<and> ''SIGTERM'' \<in> set (signals (procs (step v (Disconnect sock now) s) ! ffmpeg streamInfo))
    \<and> streams (step v (Disconnect sock now) s) sock = None
    \<and> emitted (step v (Disconnect sock now) s)
        = emitted s @ [(sock, StreamStopped (roundSeconds (now - startTime streamInfo)) (bytesReceived streamInfo))]
    \<and> (\<forall>k streamInfo'. streams (step v (Disconnect sock now) s) k = Some streamInfo'
          \<longrightarrow> ffmpeg streamInfo' \<noteq> ffmpeg streamInfo)
    \<and> (\<forall>code. emitted (step v (FfmpegClose (ffmpeg streamInfo) code) (step v (Disconnect sock now) s))
          = emitted (step v (Disconnect sock now) s))"
proof -
  let ?p = "ffmpeg streamInfo"
  let ?s' = "step v (Disconnect sock now) s"
  from assms(1) have wf: "wellFormed s"
    by (simp add: run_wellFormed initState_wellFormed)
  with assms(2) have p: "?p < length (procs s)"
    and own: "listenerSocket (procs s ! ?p) = sock"
    by (auto simp: wellFormed_def)
  have s': "?s' = stopStream sock now s" by simp
  have reg: "registeredAs s sock ?p" using assms(2) by (simp add: registeredAs_def)
  have a: "?s' = step v (StopStream sock now) s" by simp
  have m: "procs ?s' ! ?p = markStopped (procs s ! ?p)"
    by (simp only: s' stopStream_procs_self [OF reg p])
  have c: "stdinEnded (procs ?s' ! ?p)" by (simp only: m) (simp add: markStopped_def)
  have d: "''SIGTERM'' \<in> set (signals (procs ?s' ! ?p))" by (simp only: m) (simp add: markStopped_def)
  have e: "streams ?s' sock = None" by (simp add: stopStream_streams)
  have f: "emitted ?s' = emitted s @ [(sock, StreamStopped (roundSeconds (now - startTime streamInfo)) (bytesReceived streamInfo))]"
    using assms(2) by (simp add: stopStream_emitted)
  have g: "\<forall>k streamInfo'. streams ?s' k = Some streamInfo' \<longrightarrow> ffmpeg streamInfo' \<noteq> ?p"
  proof (intro allI impI)
    fix k streamInfo'
    assume k: "streams ?s' k = Some streamInfo'"
    then have "k \<noteq> sock" and "streams s k = Some streamInfo'"
      by (auto simp: stopStream_streams split: if_splits)
    with wf have "listenerSocket (procs s ! ffmpeg streamInfo') = k" by (auto simp: wellFormed_def)
    with own \<open>k \<noteq> sock\<close> show "ffmpeg streamInfo' \<noteq> ?p" by auto
  qed
  have lis: "listenerSocket (procs ?s' ! ?p) = sock"
    using own by (simp add: stopStream_listener)
  have h: "\<forall>code. emitted (step v (FfmpegClose ?p code) ?s') = emitted ?s'"
  proof
    fix code
    have "emitted (ffmpegOnClose ?p code ?s') = emitted ?s'"
      using e lis by (rule close_after_stop_silent)
    then show "emitted (step v (FfmpegClose ?p code) ?s') = emitted ?s'" by simp
  qed
  from a p c d e f g h show ?thesis by blast
qed

subsection \<open>Sequences of requests alone\<close>

text \<open>
  As long as no notification of a process is handled, every process of a socket except
  the registered one has been torn down.
\<close>

lemma requests_leave_one_unstopped_process:
  assumes "list_all isRequest es" and "s = run v es initState"
  shows "length (unstoppedProcesses s sock) \<le> 1
    \<and> (\<forall>n. length (unstoppedProcesses (run v (take n es) initState) sock) \<le> 1)
    \<and> (\<forall>streamInfo cfg sp now.
          streams s sock = Some streamInfo \<and> truthy (rtmpUrl cfg) \<longrightarrow>
            step v (StartStream sock cfg sp now) s
              = spawnAndRegister sock cfg (argsFor v cfg) sp now (stopStream sock now s)
            \<and> streams (stopStream sock now s) sock = None
            \<and> tornDown (procs (stopStream sock now s) ! ffmpeg streamInfo)
            \<and> tornDown (procs (step v (StartStream sock cfg sp now) s) ! ffmpeg streamInfo)
            \<and> \<not> registeredAs (step v (StartStream sock cfg sp now) s) sock (ffmpeg streamInfo)
            \<and> (sp = Spawned \<longrightarrow>
                 registeredAs (step v (StartStream sock cfg sp now) s) sock (length (procs s))
                 \<and> unstoppedProcesses (step v (StartStream sock cfg sp now) s) sock = [length (procs s)]))"
proof -
  from assms have no: "noOrphan s"
    by (simp add: run_noOrphan initState_noOrphan)
  from assms(2) have wf: "wellFormed s"
    by (simp add: run_wellFormed initState_wellFormed)
  have one: "length (unstoppedProcesses s sock) \<le> 1"
    using no by (rule noOrphan_active_le_1)
  have pre: "\<forall>n. length (unstoppedProcesses (run v (take n es) initState) sock) \<le> 1"
  proof
    fix n
    from assms(1) have "list_all isRequest (take n es)"
      by (auto simp: list_all_iff dest: in_set_takeD)
    then have "noOrphan (run v (take n es) initState)"
      by (simp add: run_noOrphan initState_noOrphan)
    then show "length (unstoppedProcesses (run v (take n es) initState) sock) \<le> 1"
      by (rule noOrphan_active_le_1)
  qed
  have rest: "step v (StartStream sock cfg sp now) s
              = spawnAndRegister sock cfg (argsFor v cfg) sp now (stopStream sock now s)
            \<and> streams (stopStream sock now s) sock = None
            \<and> tornDown (procs (stopStream sock now s) ! ffmpeg streamInfo)
            \<and> tornDown (procs (step v (StartStream sock cfg sp now) s) ! ffmpeg streamInfo)
            \<and> \<not> registeredAs (step v (StartStream sock cfg sp now) s) sock (ffmpeg streamInfo)
            \<and> (sp = Spawned \<longrightarrow>
                 registeredAs (step v (StartStream sock cfg sp now) s) sock (length (procs s))
                 \<and> unstoppedProcesses (step v (StartStream sock cfg sp now) s) sock = [length (procs s)])"
    if reg: "streams s sock = Some streamInfo" and url: "truthy (rtmpUrl cfg)"
    for streamInfo cfg sp now
  proof -
    let ?p = "ffmpeg streamInfo"
    let ?s0 = "stopStream sock now s"
    let ?s' = "step v (StartStream sock cfg sp now) s"
    from wf reg have p: "?p < length (procs s)" by (auto simp: wellFormed_def)
    from reg have r: "registeredAs s sock ?p" by (simp add: registeredAs_def)
    have a: "?s' = spawnAndRegister sock cfg (argsFor v cfg) sp now ?s0"
      using url by (rule step_start_valid)
    have b: "streams ?s0 sock = None" by (simp add: stopStream_streams)
    have c: "tornDown (procs ?s0 ! ?p)" using r p by (rule stopStream_tornDown_self)
    have len: "length (procs ?s0) = length (procs s)" by (simp add: stopStream_length)
    have keep: "procs ?s' ! ?p = procs ?s0 ! ?p"
      using p unfolding a
      by (cases sp) (simp_all add: spawnAndRegister_Spawned spawnAndRegister_Throws len nth_append)
    have d: "tornDown (procs ?s' ! ?p)" using c by (simp only: keep)
    have e: "\<not> registeredAs ?s' sock ?p"
      using p b unfolding a
      by (cases sp) (simp_all add: spawnAndRegister_Spawned spawnAndRegister_Throws len registeredAs_def)
    have f: "registeredAs ?s' sock (length (procs s)) \<and> unstoppedProcesses ?s' sock = [length (procs s)]"
      if sp: "sp = Spawned"
    proof -
      have s': "?s' = spawnAndRegister sock cfg (argsFor v cfg) Spawned now ?s0"
        using a sp by simp
      have r': "registeredAs ?s' sock (length (procs s))"
        by (simp add: s' spawnAndRegister_Spawned len registeredAs_def)
      have "noOrphan ?s'"
        using no assms(1) by (simp add: step_noOrphan del: step.simps)
      then have le: "length (unstoppedProcesses ?s' sock) \<le> 1" by (rule noOrphan_active_le_1)
      have "length (procs s) \<in> set (unstoppedProcesses ?s' sock)"
        by (simp add: s' spawnAndRegister_Spawned len [symmetric] unstoppedProcesses_def
              newProcess_def tornDown_def)
      with le have "unstoppedProcesses ?s' sock = [length (procs s)]"
        by (rule unstoppedProcesses_singleton)
      with r' show ?thesis by simp
    qed
    from a b c d e f show ?thesis by blast
  qed
  from one pre rest show ?thesis by blast
qed

subsection \<open>A close notification that arrives after a restart\<close>

text \<open>
  The listeners of a process look the stream up by socket, not by process. When the
  \<open>'close'\<close> notification of a replaced process is handled after the restart, it
  removes the entry of the new session; a further start request then finds nothing to
  stop, and two encoders of the socket are left that have neither exited nor been torn
  down. The sequences of requests alone, without notifications of processes, do not
  reach such a state.
\<close>

lemma stale_close_state:
  "procs (run (Optimized None)
      [StartStream ''c1'' scenarioConfig Spawned 0,
       StartStream ''c1'' scenarioConfig Spawned 1,
       FfmpegClose 0 None,
       StartStream ''c1'' scenarioConfig Spawned 2] initState)
   = [markStopped (newProcess (argsFor (Optimized None) scenarioConfig) ''c1''),
      newProcess (argsFor (Optimized None) scenarioConfig) ''c1'',
      newProcess (argsFor (Optimized None) scenarioConfig) ''c1'']"
  by (simp add: start_from_init step_start_valid truthy_scenario spawnAndRegister_Spawned
        stopStream_def emit_def Let_def markStopped_def ffmpegOnClose_def newProcess_def
        del: step.simps(1))

lemma stale_close_unregisters_restarted_session:
  "unstoppedProcesses (run (Optimized None)
      [StartStream ''c1'' scenarioConfig Spawned 0,
       StartStream ''c1'' scenarioConfig Spawned 1,
       FfmpegClose 0 None,
       StartStream ''c1'' scenarioConfig Spawned 2] initState) ''c1'' = [1, 2]"
  unfolding unstoppedProcesses_def stale_close_state
  by (simp add: upt_rec [of 0] upt_rec [of 1] upt_rec [of 2] upt_rec [of 3] tornDown_def markStopped_def newProcess_def)

lemma stale_close_closed:
  "closed (run (Optimized None)
      [StartStream ''c1'' scenarioConfig Spawned 0,
       StartStream ''c1'' scenarioConfig Spawned 1,
       FfmpegClose 0 None,
       StartStream ''c1'' scenarioConfig Spawned 2] initState) = [0]"
  by (simp add: start_from_init step_start_valid truthy_scenario spawnAndRegister_Spawned
        stopStream_def emit_def Let_def markStopped_def ffmpegOnClose_def newProcess_def
        del: step.simps(1))

lemma stale_close_leaves_two_live_encoders:
  "nonTerminalSessions (run (Optimized None)
      [StartStream ''c1'' scenarioConfig Spawned 0,
       StartStream ''c1'' scenarioConfig Spawned 1,
       FfmpegClose 0 None,
       StartStream ''c1'' scenarioConfig Spawned 2] initState) ''c1'' = [1, 2]"
  unfolding nonTerminalSessions_def stale_close_state stale_close_closed
  by (simp add: upt_rec [of 0] upt_rec [of 1] upt_rec [of 2] upt_rec [of 3] markStopped_def newProcess_def)

section \<open>The claims\<close>

subsection \<open>The argument lists\<close>

text \<open>
  Claim C8. In the optimized builder (hardware and software branch) and in the legacy
  argument list, the value of the option \<open>-g\<close> is the rendering of \<open>fps * 2\<close>, and
  read back as a number it is twice the frame rate.
\<close>

theorem keyframe_interval_is_twice_fps:
  "argValue ''-g'' (buildFFmpegArgs hwEnv url w h f b) = Some (jsString (f * 2))
   \<and> argValue ''-g'' (legacyFFmpegArgs url w h f b) = Some (jsString (f * 2))
   \<and> map_option readInt (argValue ''-g'' (buildFFmpegArgs hwEnv url w h f b)) = Some (2 * f)
   \<and> map_option readInt (argValue ''-g'' (legacyFFmpegArgs url w h f b)) = Some (2 * f)"
proof -
  have opt: "argValue ''-g'' (buildFFmpegArgs hwEnv url w h f b) = Some (jsString (f * 2))"
    by (rule optimized_keyframe_option)
  have leg: "argValue ''-g'' (legacyFFmpegArgs url w h f b) = Some (jsString (f * 2))"
    by (rule legacy_keyframe_option)
  have twice: "readInt (jsString (f * 2)) = 2 * f"
    by (simp add: readInt_jsString)
  from opt leg twice show ?thesis by simp
qed

theorem keyframe_interval_is_twice_fps_witness:
  "argValue ''-g'' (buildFFmpegArgs (Some ''true'') ''rtmp://ingest.example/live/abc123'' 1280 720 30 2500) = Some ''60''
   \<and> argValue ''-g'' (buildFFmpegArgs None ''rtmp://ingest.example/live/abc123'' 1280 720 30 2500) = Some ''60''
   \<and> argValue ''-g'' (legacyFFmpegArgs ''rtmp://ingest.example/live/abc123'' 1280 720 30 2500) = Some ''60''"
  using keyframe_interval_is_twice_fps [of "Some ''true''" "''rtmp://ingest.example/live/abc123''" 1280 720 30 2500]
    keyframe_interval_is_twice_fps [of None "''rtmp://ingest.example/live/abc123''" 1280 720 30 2500]
  by (simp add: jsString_def showNat.simps digitChar_def)

text \<open>
  Claim C3 as stated fails on the legacy argument list: at a bitrate of 2500 its
  \<open>-bufsize\<close> is \<open>5000k\<close>, twice the bitrate and not half of it.
\<close>

theorem legacy_bufsize_counterexample:
  "map_option kilobits (argValue ''-b:v'' (legacyFFmpegArgs ''rtmp://ingest.example/live/abc123'' 1280 720 30 2500)) = Some 2500
   \<and> map_option kilobits (argValue ''-bufsize'' (legacyFFmpegArgs ''rtmp://ingest.example/live/abc123'' 1280 720 30 2500)) = Some 5000
   \<and> (5000 :: int) \<noteq> 2500 div 2"
  by (simp add: legacy_bitrate_option legacy_bufsize_option kilobits_rate)

text \<open>
  Claim C3, amended. In both branches of the optimized builder the value of
  \<open>-bufsize\<close> is half the value of \<open>-b:v\<close>, rounded down, in kilobits; in the legacy
  argument list it is twice the value of \<open>-b:v\<close>.
\<close>

theorem bufsize_half_bitrate_except_legacy:
  "map_option kilobits (argValue ''-b:v'' (buildFFmpegArgs hwEnv url w h f b)) = Some b
   \<and> map_option kilobits (argValue ''-bufsize'' (buildFFmpegArgs hwEnv url w h f b)) = Some (b div 2)
   \<and> argValue ''-bufsize'' (buildFFmpegArgs hwEnv url w h f b) = Some (jsString (b div 2) @ ''k'')
   \<and> map_option kilobits (argValue ''-b:v'' (legacyFFmpegArgs url w h f b)) = Some b
   \<and> map_option kilobits (argValue ''-bufsize'' (legacyFFmpegArgs url w h f b)) = Some (b * 2)
   \<and> argValue ''-bufsize'' (legacyFFmpegArgs url w h f b) = Some (jsString (b * 2) @ ''k'')"
  by (simp add: optimized_bitrate_option optimized_bufsize_option legacy_bitrate_option
        legacy_bufsize_option kilobits_rate)

theorem bufsize_half_bitrate_except_legacy_witness:
  "argValue ''-bufsize'' (buildFFmpegArgs (Some ''true'') ''rtmp://ingest.example/live/abc123'' 1280 720 30 2501) = Some ''1250k''
   \<and> argValue ''-bufsize'' (buildFFmpegArgs None ''rtmp://ingest.example/live/abc123'' 1280 720 30 2501) = Some ''1250k''
   \<and> argValue ''-bufsize'' (legacyFFmpegArgs ''rtmp://ingest.example/live/abc123'' 1280 720 30 2501) = Some ''5002k''"
  using bufsize_half_bitrate_except_legacy [of "Some ''true''" "''rtmp://ingest.example/live/abc123''" 1280 720 30 2501]
    bufsize_half_bitrate_except_legacy [of None "''rtmp://ingest.example/live/abc123''" 1280 720 30 2501]
  by (simp add: jsString_def showNat.simps digitChar_def)

subsection \<open>Chunks\<close>

text \<open>
  Claim C10. A chunk that arrives on a socket with no entry in \<open>streams\<close> leaves the
  whole state as it is, in both variants: nothing is written to any process, no counter
  moves, nothing is emitted and \<open>streams\<close> is unchanged.
\<close>

theorem chunk_without_session_is_ignored:
  "streams s sock = None \<Longrightarrow> step v (StreamData sock data destroyed r now) s = s"
  by (cases v) (simp_all add: handleData_def handleDataLegacy_def)

theorem chunk_without_session_is_ignored_witness:
  "streams (run Legacy [StartStream ''c2'' scenarioConfig Spawned 0] initState) ''c1'' = None
   \<and> step Legacy (StreamData ''c1'' [1, 2, 3] False WriteOk 5)
         (run Legacy [StartStream ''c2'' scenarioConfig Spawned 0] initState)
       = run Legacy [StartStream ''c2'' scenarioConfig Spawned 0] initState
   \<and> streams initState ''c1'' = None
   \<and> step (Optimized None) (StreamData ''c1'' [1, 2, 3] False WriteOk 5) initState = initState"
proof -
  let ?s = "run Legacy [StartStream ''c2'' scenarioConfig Spawned 0] initState"
  have h: "streams ?s ''c1'' = None"
    by (simp add: start_from_init truthy_scenario del: step.simps)
  have i: "streams initState ''c1'' = None" by simp
  from h chunk_without_session_is_ignored [OF h, of Legacy "[1, 2, 3]" False WriteOk 5]
    i chunk_without_session_is_ignored [OF i, of "Optimized None" "[1, 2, 3]" False WriteOk 5]
  show ?thesis by blast
qed

text \<open>
  Claim C2 as stated fails when a write is accepted by the call and fails afterwards:
  the chunk of 1000 bytes is counted although no byte of it was forwarded to the pipe.
\<close>

theorem async_write_failure_counterexample:
  "map_option bytesReceived
     (streams (run (Optimized None)
        [StartStream ''c1'' scenarioConfig Spawned 0,
         StreamData ''c1'' (chunkOfSize 1000) False WriteAsyncError 1] initState) ''c1'') = Some 1000
   \<and> forwardedBytes (procs (run (Optimized None)
        [StartStream ''c1'' scenarioConfig Spawned 0,
         StreamData ''c1'' (chunkOfSize 1000) False WriteAsyncError 1] initState) ! 0) = 0"
  by (simp add: start_from_init truthy_scenario handleData_def writeChunk_def Let_def
        forwardedBytes_def newProcess_def del: step.simps(1))

text \<open>
  Claim C2, amended. In every state the handler reaches, by any events and in both
  variants, the counter of a registered session equals the sum of the sizes of the chunks
  handed to \<open>stdin.write\<close> of its process in calls that returned, whether or not the
  write failed afterwards; no event lowers the counter of a session that stays
  registered; and after a start with the scenario config and three accepted chunks of
  sizes 1000, 2000 and 1500 the counter is 4500.
\<close>

theorem bytesReceived_counts_handed_chunks:
  assumes "s = run v es initState" and "streams s sock = Some streamInfo"
  shows "bytesReceived streamInfo = handedBytes (procs s ! ffmpeg streamInfo)
    \<and> (\<forall>e streamInfo'. streams (step v e s) sock = Some streamInfo'
          \<and> ffmpeg streamInfo' = ffmpeg streamInfo
          \<longrightarrow> bytesReceived streamInfo \<le> bytesReceived streamInfo')
    \<and> map_option bytesReceived
         (streams (run v
            [StartStream ''c1'' scenarioConfig Spawned 0,
             StreamData ''c1'' (chunkOfSize 1000) False WriteOk 1,
             StreamData ''c1'' (chunkOfSize 2000) False WriteOk 2,
             StreamData ''c1'' (chunkOfSize 1500) False WriteOk 3] initState) ''c1'') = Some 4500"
proof -
  from assms(1) have wf: "wellFormed s"
    by (simp add: run_wellFormed initState_wellFormed)
  with assms(2) have a: "bytesReceived streamInfo = handedBytes (procs s ! ffmpeg streamInfo)"
    by (auto simp: wellFormed_def)
  have b: "\<forall>e streamInfo'. streams (step v e s) sock = Some streamInfo'
          \<and> ffmpeg streamInfo' = ffmpeg streamInfo
          \<longrightarrow> bytesReceived streamInfo \<le> bytesReceived streamInfo'"
    using step_bytes_monotone [OF wf assms(2)] by blast
  have c: "map_option bytesReceived
         (streams (run v
            [StartStream ''c1'' scenarioConfig Spawned 0,
             StreamData ''c1'' (chunkOfSize 1000) False WriteOk 1,
             StreamData ''c1'' (chunkOfSize 2000) False WriteOk 2,
             StreamData ''c1'' (chunkOfSize 1500) False WriteOk 3] initState) ''c1'') = Some 4500"
    by (cases v)
       (simp_all add: start_from_init truthy_scenario handleData_def handleDataLegacy_def
          writeChunk_def Let_def del: step.simps(1,2))
  from a b c show ?thesis by blast
qed

theorem bytesReceived_counts_handed_chunks_witness:
  "streams (run (Optimized None)
      [StartStream ''c1'' scenarioConfig Spawned 0,
       StreamData ''c1'' (chunkOfSize 1000) False WriteAsyncError 1,
       StreamData ''c1'' (chunkOfSize 2000) False WriteOk 2] initState) ''c1''
     = Some \<lparr>ffmpeg = 0, startTime = 0, bytesReceived = 3000, config = scenarioConfig\<rparr>
   \<and> handedBytes (procs (run (Optimized None)
      [StartStream ''c1'' scenarioConfig Spawned 0,
       StreamData ''c1'' (chunkOfSize 1000) False WriteAsyncError 1,
       StreamData ''c1'' (chunkOfSize 2000) False WriteOk 2] initState) ! 0) = 3000"
proof -
  let ?s = "run (Optimized None)
      [StartStream ''c1'' scenarioConfig Spawned 0,
       StreamData ''c1'' (chunkOfSize 1000) False WriteAsyncError 1,
       StreamData ''c1'' (chunkOfSize 2000) False WriteOk 2] initState"
  have h: "streams ?s ''c1''
      = Some \<lparr>ffmpeg = 0, startTime = 0, bytesReceived = 3000, config = scenarioConfig\<rparr>"
    by (simp add: start_from_init truthy_scenario handleData_def writeChunk_def Let_def
          del: step.simps(1))
  from bytesReceived_counts_handed_chunks [OF refl h]
  have "handedBytes (procs ?s ! 0) = 3000" by simp
  with h show ?thesis by (rule conjI)
qed

subsection \<open>Exit of the encoder\<close>

text \<open>
  Claim C4 as stated fails: when the encoder of a live session exits with code 1, the
  client receives the error event and no \<open>stream-stopped\<close> status event.
\<close>

theorem close_without_status_counterexample:
  "emittedOn (run (Optimized None)
      [StartStream ''c1'' scenarioConfig Spawned 0,
       FfmpegClose 0 (Some 1)] initState) ''c1''
     = [StreamStarted ''Stream started successfully'' 0,
        StreamError ''Stream ended unexpectedly (code 1)'']
   \<and> filter isStopped (emittedOn (run (Optimized None)
      [StartStream ''c1'' scenarioConfig Spawned 0,
       FfmpegClose 0 (Some 1)] initState) ''c1'') = []"
  by (simp add: start_from_init truthy_scenario ffmpegOnClose_def Let_def emittedOn_def
        newProcess_def emit_def codeString_def jsString_def showNat.simps digitChar_def
        del: step.simps(1))

text \<open>
  Claim C4, amended. When the encoder of a registered session exits with a code other
  than 0, the \<open>'close'\<close> listener removes the entry of the session from \<open>streams\<close>
  and emits exactly one event on the socket, a \<open>stream-error\<close> naming the exit code;
  it emits no \<open>stream-stopped\<close> status event and touches no process.
\<close>

theorem abnormal_exit_emits_one_error:
  assumes "s = run v es initState" and "streams s sock = Some streamInfo"
    and "code \<noteq> Some 0"
  shows "streams (step v (FfmpegClose (ffmpeg streamInfo) code) s) sock = None
    \<and> emitted (step v (FfmpegClose (ffmpeg streamInfo) code) s)
        = emitted s @ [(sock, StreamError (''Stream ended unexpectedly (code '' @ codeString code @ '')''))]
    \<and> procs (step v (FfmpegClose (ffmpeg streamInfo) code) s) = procs s"
proof -
  from assms(1) have "wellFormed s"
    by (simp add: run_wellFormed initState_wellFormed)
  with assms(2) have "ffmpeg streamInfo < length (procs s)"
    and "listenerSocket (procs s ! ffmpeg streamInfo) = sock"
    by (auto simp: wellFormed_def)
  with assms(2,3) show ?thesis
    by (simp add: ffmpegOnClose_def Let_def)
qed

theorem abnormal_exit_emits_one_error_witness:
  "streams (run Legacy [StartStream ''c1'' scenarioConfig Spawned 0] initState) ''c1''
     = Some \<lparr>ffmpeg = 0, startTime = 0, bytesReceived = 0, config = scenarioConfig\<rparr>
   \<and> Some (1 :: int) \<noteq> Some 0
   \<and> streams (step Legacy (FfmpegClose 0 (Some 1))
        (run Legacy [StartStream ''c1'' scenarioConfig Spawned 0] initState)) ''c1'' = None
   \<and> emitted (step Legacy (FfmpegClose 0 (Some 1))
        (run Legacy [StartStream ''c1'' scenarioConfig Spawned 0] initState))
      = [(''c1'', StreamStarted ''Stream started successfully'' 0),
         (''c1'', StreamError ''Stream ended unexpectedly (code 1)'')]"
proof -
  let ?s = "run Legacy [StartStream ''c1'' scenarioConfig Spawned 0] initState"
  have h: "streams ?s ''c1''
      = Some \<lparr>ffmpeg = 0, startTime = 0, bytesReceived = 0, config = scenarioConfig\<rparr>"
    by (simp add: start_from_init truthy_scenario del: step.simps(2))
  have c: "Some (1 :: int) \<noteq> Some 0" by simp
  have e: "emitted ?s = [(''c1'', StreamStarted ''Stream started successfully'' 0)]"
    by (simp add: start_from_init truthy_scenario del: step.simps(2))
  from abnormal_exit_emits_one_error [OF refl h c] h c e show ?thesis
    by (simp add: codeString_def jsString_def showNat.simps digitChar_def del: run.simps step.simps)
qed

subsection \<open>Start requests\<close>

text \<open>
  Claim C5 as stated fails when \<open>spawn\<close> returns and the launch failure is reported
  by the \<open>'error'\<close> listener: right after the start request the session is registered
  and the client has been told that the stream started; the error follows later.
\<close>

theorem async_spawn_failure_counterexample:
  "streams (step (Optimized None) (StartStream ''c1'' scenarioConfig Spawned 0) initState) ''c1'' \<noteq> None
   \<and> emittedOn (step (Optimized None) (StartStream ''c1'' scenarioConfig Spawned 0) initState) ''c1''
       = [StreamStarted ''Stream started successfully'' 0]
   \<and> emittedOn (run (Optimized None)
        [StartStream ''c1'' scenarioConfig Spawned 0,
         FfmpegError 0 ''spawn ffmpeg ENOENT'' 2] initState) ''c1''
       = [StreamStarted ''Stream started successfully'' 0,
          StreamError ''FFmpeg error: spawn ffmpeg ENOENT'',
          StreamStopped 0 0]"
  by (simp add: start_from_init truthy_scenario emittedOn_def ffmpegOnError_def Let_def
        newProcess_def stopStream_def emit_def roundSeconds_def del: step.simps(1))

text \<open>
  Claim C5, amended. For a start request with a target URL: when \<open>spawn\<close> throws, the
  request emits a \<open>stream-error\<close> at once, spawns nothing and leaves no entry for the
  socket in \<open>streams\<close>; when \<open>spawn\<close> returns and the failure is reported by the
  \<open>'error'\<close> listener of the new process, the session was registered and acknowledged
  first, and the listener then emits a \<open>stream-error\<close>, tears the process down, emits
  the \<open>stream-stopped\<close> summary and leaves no entry for the socket.
\<close>

theorem spawn_failure_leaves_no_session:
  assumes "truthy (rtmpUrl cfg)"
  shows "streams (step v (StartStream sock cfg (SpawnThrows msg) now) s) sock = None
    \<and> length (procs (step v (StartStream sock cfg (SpawnThrows msg) now) s)) = length (procs s)
    \<and> emitted (step v (StartStream sock cfg (SpawnThrows msg) now) s)
        = emitted (stopStream sock now s) @ [(sock, StreamError (''Failed to start stream: '' @ msg))]
    \<and> streams (step v (FfmpegError (length (procs s)) msg later)
          (step v (StartStream sock cfg Spawned now) s)) sock = None
    \<and> emitted (step v (FfmpegError (length (procs s)) msg later)
          (step v (StartStream sock cfg Spawned now) s))
        = emitted (stopStream sock now s)
          @ [(sock, StreamStarted ''Stream started successfully'' now),
             (sock, StreamError (''FFmpeg error: '' @ msg)),
             (sock, StreamStopped (roundSeconds (later - now)) 0)]
    \<and> tornDown (procs (step v (FfmpegError (length (procs s)) msg later)
          (step v (StartStream sock cfg Spawned now) s)) ! length (procs s))"
proof -
  let ?s0 = "stopStream sock now s"
  let ?t = "step v (StartStream sock cfg (SpawnThrows msg) now) s"
  let ?s1 = "step v (StartStream sock cfg Spawned now) s"
  let ?s2 = "step v (FfmpegError (length (procs s)) msg later) ?s1"
  have t: "?t = emit sock (StreamError (''Failed to start stream: '' @ msg)) ?s0"
    using assms by (simp add: step_start_valid spawnAndRegister_Throws)
  have s1: "?s1 = ?s0\<lparr>procs := procs ?s0 @ [newProcess (argsFor v cfg) sock],
       streams := (streams ?s0)(sock \<mapsto> \<lparr>ffmpeg = length (procs ?s0), startTime = now, bytesReceived = 0, config = cfg\<rparr>),
       emitted := emitted ?s0 @ [(sock, StreamStarted ''Stream started successfully'' now)]\<rparr>"
    using assms by (simp add: step_start_valid spawnAndRegister_Spawned)
  have len: "length (procs ?s0) = length (procs s)" by (simp add: stopStream_length)
  have a: "streams ?t sock = None" by (simp add: t stopStream_streams)
  have b: "length (procs ?t) = length (procs s)" by (simp add: t len)
  have c: "emitted ?t = emitted ?s0 @ [(sock, StreamError (''Failed to start stream: '' @ msg))]"
    by (simp add: t)
  have lis: "listenerSocket (procs ?s1 ! length (procs s)) = sock"
    by (simp add: s1 len [symmetric] newProcess_def)
  have reg: "streams (emit sock (StreamError (''FFmpeg error: '' @ msg)) ?s1) sock
      = Some \<lparr>ffmpeg = length (procs s), startTime = now, bytesReceived = 0, config = cfg\<rparr>"
    by (simp add: s1 len)
  have s2: "?s2 = stopStream sock later (emit sock (StreamError (''FFmpeg error: '' @ msg)) ?s1)"
    using lis by (simp add: ffmpegOnError_def Let_def s1 len)
  have d: "streams ?s2 sock = None" by (simp only: s2 stopStream_streams) simp
  have e: "emitted ?s2 = emitted ?s0
          @ [(sock, StreamStarted ''Stream started successfully'' now),
             (sock, StreamError (''FFmpeg error: '' @ msg)),
             (sock, StreamStopped (roundSeconds (later - now)) 0)]"
    by (simp only: s2 stopStream_Some [OF reg]) (simp add: s1)
  have f: "tornDown (procs ?s2 ! length (procs s))"
    by (simp only: s2 stopStream_Some [OF reg]) (simp add: s1 len [symmetric] tornDown_markStopped)
  from a b c d e f show ?thesis by blast
qed

theorem spawn_failure_leaves_no_session_witness:
  "truthy (rtmpUrl scenarioConfig)
   \<and> streams (step (Optimized None) (StartStream ''c1'' scenarioConfig (SpawnThrows ''spawn EACCES'') 0) initState) ''c1'' = None
   \<and> length (procs (step (Optimized None) (StartStream ''c1'' scenarioConfig (SpawnThrows ''spawn EACCES'') 0) initState)) = 0
   \<and> emitted (step (Optimized None) (StartStream ''c1'' scenarioConfig (SpawnThrows ''spawn EACCES'') 0) initState)
       = [(''c1'', StreamError ''Failed to start stream: spawn EACCES'')]"
  using truthy_scenario
    spawn_failure_leaves_no_session [OF truthy_scenario, of "Optimized None" "''c1''" "''spawn EACCES''" 0 initState]
  by (simp add: stopStream_None del: step.simps)

text \<open>
  Claim C6 as stated fails for the numbers: a start request with width 0, height -720,
  fps 0 and bitrate -1 is accepted, the encoder is spawned and the session registered.
\<close>

theorem non_positive_numbers_counterexample:
  "streams (step (Optimized None) (StartStream ''c1'' nonPositiveConfig Spawned 0) initState) ''c1''
     = Some \<lparr>ffmpeg = 0, startTime = 0, bytesReceived = 0, config = nonPositiveConfig\<rparr>
   \<and> length (procs (step (Optimized None) (StartStream ''c1'' nonPositiveConfig Spawned 0) initState)) = 1
   \<and> emitted (step (Optimized None) (StartStream ''c1'' nonPositiveConfig Spawned 0) initState)
       = [(''c1'', StreamStarted ''Stream started successfully'' 0)]
   \<and> streams (step Legacy (StartStream ''c1'' nonPositiveConfig Spawned 0) initState) ''c1''
     = Some \<lparr>ffmpeg = 0, startTime = 0, bytesReceived = 0, config = nonPositiveConfig\<rparr>"
proof -
  have "truthy (rtmpUrl nonPositiveConfig)" by (simp add: truthy_def nonPositiveConfig_def)
  then show ?thesis by (simp add: start_from_init del: step.simps)
qed

text \<open>
  Claim C6, amended. A start request whose target URL is absent or empty emits a
  \<open>stream-error\<close> with the message \<open>RTMP URL is required\<close> and changes nothing
  else: no session is created and no encoder is spawned. The numbers are not validated:
  with a target URL, and \<open>spawn\<close> returning, the session is registered and the process
  spawned whatever width, height, fps and bitrate are.
\<close>

theorem only_missing_url_is_rejected:
  "(rtmpUrl cfg = None \<or> rtmpUrl cfg = Some [] \<longrightarrow>
      step v (StartStream sock cfg sp now) s = emit sock (StreamError ''RTMP URL is required'') s
      \<and> streams (step v (StartStream sock cfg sp now) s) = streams s
      \<and> procs (step v (StartStream sock cfg sp now) s) = procs s)
   \<and> ((\<exists>url. rtmpUrl cfg = Some url \<and> url \<noteq> []) \<longrightarrow>
      streams (step v (StartStream sock cfg Spawned now) s) sock
        = Some \<lparr>ffmpeg = length (procs s), startTime = now, bytesReceived = 0, config = cfg\<rparr>
      \<and> procs (step v (StartStream sock cfg Spawned now) s)
        = procs (stopStream sock now s) @ [newProcess (argsFor v cfg) sock])"
proof (intro conjI impI)
  assume "rtmpUrl cfg = None \<or> rtmpUrl cfg = Some []"
  then have n: "\<not> truthy (rtmpUrl cfg)" by (auto simp: truthy_def)
  then show "step v (StartStream sock cfg sp now) s = emit sock (StreamError ''RTMP URL is required'') s"
    by (rule step_start_invalid)
  then show "streams (step v (StartStream sock cfg sp now) s) = streams s"
    and "procs (step v (StartStream sock cfg sp now) s) = procs s"
    by simp_all
next
  assume "\<exists>url. rtmpUrl cfg = Some url \<and> url \<noteq> []"
  then have t: "truthy (rtmpUrl cfg)" by (auto simp: truthy_def)
  then show "streams (step v (StartStream sock cfg Spawned now) s) sock
        = Some \<lparr>ffmpeg = length (procs s), startTime = now, bytesReceived = 0, config = cfg\<rparr>"
    by (simp add: step_start_valid spawnAndRegister_Spawned stopStream_length)
  from t show "procs (step v (StartStream sock cfg Spawned now) s)
        = procs (stopStream sock now s) @ [newProcess (argsFor v cfg) sock]"
    by (simp add: step_start_valid spawnAndRegister_Spawned)
qed

theorem only_missing_url_is_rejected_witness:
  "(rtmpUrl noUrlConfig = None \<or> rtmpUrl noUrlConfig = Some [])
   \<and> emitted (step Legacy (StartStream ''c1'' noUrlConfig Spawned 0) initState)
       = [(''c1'', StreamError ''RTMP URL is required'')]
   \<and> procs (step Legacy (StartStream ''c1'' noUrlConfig Spawned 0) initState) = []
   \<and> (\<exists>url. rtmpUrl nonPositiveConfig = Some url \<and> url \<noteq> [])
   \<and> streams (step Legacy (StartStream ''c1'' nonPositiveConfig Spawned 0) initState) ''c1''
       = Some \<lparr>ffmpeg = 0, startTime = 0, bytesReceived = 0, config = nonPositiveConfig\<rparr>"
proof -
  have h1: "rtmpUrl noUrlConfig = None \<or> rtmpUrl noUrlConfig = Some []"
    by (simp add: noUrlConfig_def)
  have h2: "\<exists>url. rtmpUrl nonPositiveConfig = Some url \<and> url \<noteq> []"
    by (simp add: nonPositiveConfig_def)
  from only_missing_url_is_rejected [of noUrlConfig Legacy "''c1''" Spawned 0 initState] h1
  have a: "emitted (step Legacy (StartStream ''c1'' noUrlConfig Spawned 0) initState)
       = [(''c1'', StreamError ''RTMP URL is required'')]"
    and b: "procs (step Legacy (StartStream ''c1'' noUrlConfig Spawned 0) initState) = []"
    by (simp_all del: step.simps)
  from only_missing_url_is_rejected [of nonPositiveConfig Legacy "''c1''" Spawned 0 initState] h2
  have c: "streams (step Legacy (StartStream ''c1'' nonPositiveConfig Spawned 0) initState) ''c1''
       = Some \<lparr>ffmpeg = 0, startTime = 0, bytesReceived = 0, config = nonPositiveConfig\<rparr>"
    by (simp del: step.simps)
  from h1 a b h2 c show ?thesis by blast
qed

subsection \<open>Stop and disconnect\<close>

text \<open>
  Claim C7 does not hold of the code. On one socket: start, stop, start, then the
  \<open>'close'\<close> notification of the first encoder (which the stop signalled), then
  disconnect. The \<open>'close'\<close> listener of the first encoder removes the entry of the
  socket, which by then belongs to the second session; the disconnect finds no entry
  and changes nothing, so the input pipe of the second encoder is not closed, no signal
  is sent to it, and it has not exited. In both variants.
\<close>

theorem disconnect_misses_unregistered_encoder:
  "streams (run (Optimized None) stopStartCloseEvents initState) ''c1'' = None
   \<and> nonTerminalSessions (run (Optimized None) stopStartCloseEvents initState) ''c1'' = [1]
   \<and> \<not> stdinEnded (procs (run (Optimized None) stopStartCloseEvents initState) ! 1)
   \<and> signals (procs (run (Optimized None) stopStartCloseEvents initState) ! 1) = []
   \<and> step (Optimized None) (Disconnect ''c1'' 3) (run (Optimized None) stopStartCloseEvents initState)
       = run (Optimized None) stopStartCloseEvents initState
   \<and> streams (run Legacy stopStartCloseEvents initState) ''c1'' = None
   \<and> nonTerminalSessions (run Legacy stopStartCloseEvents initState) ''c1'' = [1]
   \<and> \<not> stdinEnded (procs (run Legacy stopStartCloseEvents initState) ! 1)
   \<and> signals (procs (run Legacy stopStartCloseEvents initState) ! 1) = []
   \<and> step Legacy (Disconnect ''c1'' 3) (run Legacy stopStartCloseEvents initState)
       = run Legacy stopStartCloseEvents initState"
proof -
  have a: "streams (run v stopStartCloseEvents initState) ''c1'' = None" for v
    by (rule stopStartClose_state)
  have b: "nonTerminalSessions (run v stopStartCloseEvents initState) ''c1'' = [1]" for v
    by (rule stopStartClose_nonTerminal)
  have c: "\<not> stdinEnded (procs (run v stopStartCloseEvents initState) ! 1)
      \<and> signals (procs (run v stopStartCloseEvents initState) ! 1) = []" for v
    by (simp only: stopStartClose_state) (simp add: newProcess_def)
  have d: "step v (Disconnect ''c1'' 3) (run v stopStartCloseEvents initState)
      = run v stopStartCloseEvents initState" for v
    using a [of v] by (simp add: stopStream_None)
  from a b c d show ?thesis by blast
qed

subsection \<open>One session per socket\<close>




subsection \<open>Defaults of the config\<close>

text \<open>
  Claim C9. An absent width, height, fps or bitrate gives the same argument list as the
  value 1920, 1080, 30 or 4500; that list is the one the process is spawned with; a
  start request with an absent target URL is rejected with a \<open>stream-error\<close>.
\<close>

theorem omitted_numbers_take_defaults:
  "(width cfg = None \<longrightarrow> argsFor v cfg = argsFor v (cfg\<lparr>width := Some 1920\<rparr>))
   \<and> (height cfg = None \<longrightarrow> argsFor v cfg = argsFor v (cfg\<lparr>height := Some 1080\<rparr>))
   \<and> (fps cfg = None \<longrightarrow> argsFor v cfg = argsFor v (cfg\<lparr>fps := Some 30\<rparr>))
   \<and> (bitrate cfg = None \<longrightarrow> argsFor v cfg = argsFor v (cfg\<lparr>bitrate := Some 4500\<rparr>))
   \<and> (truthy (rtmpUrl cfg) \<longrightarrow>
        procs (step v (StartStream sock cfg Spawned now) s)
          = procs (stopStream sock now s) @ [newProcess (argsFor v cfg) sock])
   \<and> (rtmpUrl cfg = None \<longrightarrow>
        step v (StartStream sock cfg sp now) s = emit sock (StreamError ''RTMP URL is required'') s)"
proof (intro conjI impI)
  assume "width cfg = None"
  then show "argsFor v cfg = argsFor v (cfg\<lparr>width := Some 1920\<rparr>)"
    by (simp add: argsFor_def widthOf_def heightOf_def fpsOf_def bitrateOf_def
          split: variant.splits)
next
  assume "height cfg = None"
  then show "argsFor v cfg = argsFor v (cfg\<lparr>height := Some 1080\<rparr>)"
    by (simp add: argsFor_def widthOf_def heightOf_def fpsOf_def bitrateOf_def
          split: variant.splits)
next
  assume "fps cfg = None"
  then show "argsFor v cfg = argsFor v (cfg\<lparr>fps := Some 30\<rparr>)"
    by (simp add: argsFor_def widthOf_def heightOf_def fpsOf_def bitrateOf_def
          split: variant.splits)
next
  assume "bitrate cfg = None"
  then show "argsFor v cfg = argsFor v (cfg\<lparr>bitrate := Some 4500\<rparr>)"
    by (simp add: argsFor_def widthOf_def heightOf_def fpsOf_def bitrateOf_def
          split: variant.splits)
next
  assume "truthy (rtmpUrl cfg)"
  then show "procs (step v (StartStream sock cfg Spawned now) s)
          = procs (stopStream sock now s) @ [newProcess (argsFor v cfg) sock]"
    by (simp add: step_start_valid spawnAndRegister_Spawned)
next
  assume "rtmpUrl cfg = None"
  then have "\<not> truthy (rtmpUrl cfg)" by (simp add: truthy_def)
  then show "step v (StartStream sock cfg sp now) s = emit sock (StreamError ''RTMP URL is required'') s"
    by (rule step_start_invalid)
qed

theorem omitted_numbers_take_defaults_witness:
  "width urlOnlyConfig = None \<and> height urlOnlyConfig = None \<and> fps urlOnlyConfig = None
   \<and> bitrate urlOnlyConfig = None \<and> truthy (rtmpUrl urlOnlyConfig)
   \<and> map spawnArgs (procs (step (Optimized None) (StartStream ''c1'' urlOnlyConfig Spawned 0) initState))
       = [buildFFmpegArgs None ''rtmp://ingest.example/live'' 1920 1080 30 4500]
   \<and> map spawnArgs (procs (step Legacy (StartStream ''c1'' urlOnlyConfig Spawned 0) initState))
       = [legacyFFmpegArgs ''rtmp://ingest.example/live'' 1920 1080 30 4500]
   \<and> rtmpUrl noUrlConfig = None
   \<and> emitted (step (Optimized None) (StartStream ''c1'' noUrlConfig Spawned 0) initState)
       = [(''c1'', StreamError ''RTMP URL is required'')]"
proof -
  have h: "width urlOnlyConfig = None" "height urlOnlyConfig = None" "fps urlOnlyConfig = None"
    "bitrate urlOnlyConfig = None" "truthy (rtmpUrl urlOnlyConfig)"
    by (simp_all add: urlOnlyConfig_def truthy_def)
  have n: "rtmpUrl noUrlConfig = None" by (simp add: noUrlConfig_def)
  have args: "argsFor (Optimized None) urlOnlyConfig = buildFFmpegArgs None ''rtmp://ingest.example/live'' 1920 1080 30 4500"
    "argsFor Legacy urlOnlyConfig = legacyFFmpegArgs ''rtmp://ingest.example/live'' 1920 1080 30 4500"
    by (simp_all add: argsFor_def urlOnlyConfig_def widthOf_def heightOf_def fpsOf_def
          bitrateOf_def fullRtmpUrl_def)
  from omitted_numbers_take_defaults [of urlOnlyConfig "Optimized None" "''c1''" 0 initState] h
  have a: "map spawnArgs (procs (step (Optimized None) (StartStream ''c1'' urlOnlyConfig Spawned 0) initState))
       = [buildFFmpegArgs None ''rtmp://ingest.example/live'' 1920 1080 30 4500]"
    by (simp add: stopStream_None newProcess_def args del: step.simps)
  from omitted_numbers_take_defaults [of urlOnlyConfig Legacy "''c1''" 0 initState] h
  have b: "map spawnArgs (procs (step Legacy (StartStream ''c1'' urlOnlyConfig Spawned 0) initState))
       = [legacyFFmpegArgs ''rtmp://ingest.example/live'' 1920 1080 30 4500]"
    by (simp add: stopStream_None newProcess_def args del: step.simps)
  from omitted_numbers_take_defaults [of noUrlConfig "Optimized None" "''c1''" 0 initState Spawned] n
  have c: "emitted (step (Optimized None) (StartStream ''c1'' noUrlConfig Spawned 0) initState)
       = [(''c1'', StreamError ''RTMP URL is required'')]"
    by (simp del: step.simps)
  from h n a b c show ?thesis by blast
qed

end
